theory Spec2Isabelle
  imports Main
begin

section \<open>Python strings and values\<close>

text \<open>
  Strings are character lists, a character being a code point below 256.
  \<open>str.isspace\<close>, and with it \<open>str.rstrip()\<close>, takes as whitespace tab, line feed,
  vertical tab, form feed, carriage return, the four separators 0x1C..0x1F, the space,
  next line (0x85) and the no-break space (0xA0).
\<close>

definition newline :: char where
  "newline = CHR 0x0A"

definition py_isspace :: "char \<Rightarrow> bool" where
  "py_isspace c = (c \<in> {CHR 0x09, CHR 0x0A, CHR 0x0B, CHR 0x0C, CHR 0x0D,
                         CHR 0x1C, CHR 0x1D, CHR 0x1E, CHR 0x1F, CHR '' '',
                         CHR 0x85, CHR 0xA0})"

definition rstrip :: "string \<Rightarrow> string" where
  "rstrip s = rev (dropWhile py_isspace (rev s))"

definition digit_char :: "nat \<Rightarrow> char" where
  "digit_char n = ''0123456789'' ! n"

fun str_nat :: "nat \<Rightarrow> string" where
  "str_nat n = (if n < 10 then [digit_char n] else str_nat (n div 10) @ [digit_char (n mod 10)])"

declare str_nat.simps [simp del]

text \<open>\<open>str(i)\<close> for a Python int.\<close>

definition str_int :: "int \<Rightarrow> string" where
  "str_int i = (if i < 0 then CHR ''-'' # str_nat (nat (- i)) else str_nat (nat i))"

text \<open>
  \<open>int(s)\<close> for a Python str. The whitespace it strips at both ends is not that of
  \<open>str.isspace\<close>: the separators 0x1C..0x1F are not stripped (with one of them the
  call raises). Then one sign is allowed, then decimal digits, with single underscores
  between digits. \<open>None\<close> is ValueError. (The limit on the number of digits, a
  setting of recent interpreters, is not modelled.)
\<close>

definition int_isspace :: "char \<Rightarrow> bool" where
  "int_isspace c = (c \<in> {CHR 0x09, CHR 0x0A, CHR 0x0B, CHR 0x0C, CHR 0x0D, CHR '' '',
                          CHR 0x85, CHR 0xA0})"

definition int_strip :: "string \<Rightarrow> string" where
  "int_strip s = rev (dropWhile int_isspace (rev (dropWhile int_isspace s)))"

definition is_digit :: "char \<Rightarrow> bool" where
  "is_digit c = (c \<in> set ''0123456789'')"

definition digit_val :: "char \<Rightarrow> int" where
  "digit_val c = int (length (takeWhile (\<lambda>d. d \<noteq> c) ''0123456789''))"

fun digits_ok :: "string \<Rightarrow> bool" where
  "digits_ok [] = False"
| "digits_ok [c] = is_digit c"
| "digits_ok (c # d # s) =
     (if is_digit c then
        (if d = CHR ''_'' then digits_ok s else digits_ok (d # s))
      else False)"

definition py_int :: "string \<Rightarrow> int option" where
  "py_int s =
     (let t = int_strip s;
          (neg, body) = (case t of
                           c # r \<Rightarrow> if c = CHR ''-'' then (True, r)
                                    else if c = CHR ''+'' then (False, r)
                                    else (False, t)
                         | [] \<Rightarrow> (False, t))
      in if digits_ok body
         then (let v = foldl (\<lambda>a c. 10 * a + digit_val c) 0 (filter (\<lambda>c. c \<noteq> CHR ''_'') body)
               in Some (if neg then - v else v))
         else None)"

text \<open>The values stored in an argument dictionary: strings and ints; \<open>str(v)\<close>.\<close>

datatype pyval = PyStr string | PyInt int

fun str_py :: "pyval \<Rightarrow> string" where
  "str_py (PyStr s) = s"
| "str_py (PyInt i) = str_int i"

text \<open>
  A Python dict keeps its keys in insertion order: an association list with distinct
  keys. \<open>d[k] = v\<close> replaces the value of a key already present where it stands and
  appends a new key at the end.
\<close>

type_synonym dict = "(string \<times> pyval) list"

fun dict_set :: "dict \<Rightarrow> string \<Rightarrow> pyval \<Rightarrow> dict" where
  "dict_set [] k v = [(k, v)]"
| "dict_set ((k', v') # d) k v =
     (if k' = k then (k, v) # d else (k', v') # dict_set d k v)"

section \<open>Configuration, environment and state\<close>

text \<open>
  The global \<open>config\<close> after \<open>load_config\<close>: the options \<open>run\<close>, \<open>finish\<close>,
  \<open>send_email\<close> and \<open>snapraid_btrfs_command\<close> read, with the types \<open>load_config\<close>
  has coerced them to. \<open>discord_enabled\<close> stays a string (it is only tested for
  truth, that is for being non-empty).
\<close>

record config =
  snapraid_config :: string
  snapraid_executable :: string
  snapraid_touch :: bool
  deletethreshold :: int
  snapper_executable :: string
  snapraid_btrfs_executable :: string
  snapper_configs :: string
  snapper_configs_file :: string
  pool :: bool
  pool_dir :: string
  cleanup :: bool
  scrub_enabled :: bool
  scrub_plan :: string
  scrub_older_than :: int
  email_sendon :: string
  email_short :: bool
  email_maxsize :: int
  email_subject :: string
  email_from :: string
  email_to :: string
  smtp_host :: string
  discord_enabled :: string
  discord_sendon :: string

text \<open>
  What a child process writes, in the order the two tee threads hand the lines to the
  logger, and its exit status.
\<close>

datatype stream_line = Out string | Err string

record proc =
  events :: "stream_line list"
  returncode :: int

record email =
  subject :: string
  sender :: string
  recipient :: string
  body :: string

record payload =
  content :: string
  title :: string
  description :: string
  color :: nat

text \<open>
  The outcome of \<open>requests.post\<close> followed by \<open>raise_for_status\<close>: the exception
  class the handlers of \<open>send_discord_notification\<close> tell apart, with its text.
\<close>

datatype post_result =
    Posted
  | HTTPError string
  | ConnectionError string
  | Timeout string
  | RequestException string
  | OtherException string

text \<open>
  Everything outside the program: the file system (\<open>shutil.which\<close>,
  \<open>os.path.isfile\<close>), the child processes, the clock of the log formatter, the names
  of signals, the SMTP server (\<open>Some\<close> is the traceback of the exception raised
  while sending) and the webhook.
\<close>

record env =
  which :: "string \<Rightarrow> bool"
  isfile :: "string \<Rightarrow> bool"
  popen :: "string list \<Rightarrow> proc"
  asctime :: "nat \<Rightarrow> string"
  signal_repr :: "int \<Rightarrow> string option"
  smtp :: "email \<Rightarrow> string option"
  http_post :: "payload \<Rightarrow> post_result"

datatype level = OUTPUT | INFO | OUTERR | WARNING | ERROR

fun levelno :: "level \<Rightarrow> nat" where
  "levelno OUTPUT = 15"
| "levelno INFO = 20"
| "levelno OUTERR = 25"
| "levelno WARNING = 30"
| "levelno ERROR = 40"

fun levelname :: "level \<Rightarrow> string" where
  "levelname OUTPUT = ''OUTPUT''"
| "levelname INFO = ''INFO''"
| "levelname OUTERR = ''OUTERR''"
| "levelname WARNING = ''WARNING''"
| "levelname ERROR = ''ERROR''"

text \<open>
  The state a run changes: the records handed to the root logger, the text of the
  \<open>email_log\<close> buffer (\<open>None\<close> while the global is \<open>None\<close>), the processes
  spawned (the command and the whole argument vector of each), and the messages handed
  to the two transports.
\<close>

record state =
  log :: "(level \<times> string) list"
  email_log :: "string option"
  calls :: "(string \<times> string list) list"
  emails :: "email list"
  webhooks :: "payload list"

section \<open>Logging\<close>

text \<open>The format \<open>%(asctime)s [%(levelname)-6.6s] %(message)s\<close> and the terminator.\<close>

definition format_record :: "env \<Rightarrow> nat \<Rightarrow> level \<Rightarrow> string \<Rightarrow> string" where
  "format_record e n lvl msg =
     asctime e n @ '' ['' @ take 6 (levelname lvl @ replicate (6 - length (levelname lvl)) CHR '' '')
       @ ''] '' @ msg @ [newline]"

text \<open>
  One call of \<open>logging.log\<close>: every level used is at or above the root level OUTPUT;
  the email handler exists when \<open>email_log\<close> does and is at level INFO when
  \<open>short\<close> is set.
\<close>

definition logging_log :: "config \<Rightarrow> env \<Rightarrow> level \<Rightarrow> string \<Rightarrow> state \<Rightarrow> state" where
  "logging_log cfg e lvl msg st =
     st\<lparr>log := log st @ [(lvl, msg)],
        email_log :=
          (case email_log st of
             None \<Rightarrow> None
           | Some buf \<Rightarrow>
               if email_short cfg \<and> levelno lvl < levelno INFO then Some buf
               else Some (buf @ format_record e (length (log st)) lvl msg))\<rparr>"

text \<open>\<open>logging.exception\<close>: an ERROR record whose text is followed by the traceback.\<close>

definition logging_exception :: "config \<Rightarrow> env \<Rightarrow> string \<Rightarrow> string \<Rightarrow> state \<Rightarrow> state" where
  "logging_exception cfg e msg tb st = logging_log cfg e ERROR (msg @ [newline] @ tb) st"

text \<open>The state \<open>setup_logger\<close> leaves.\<close>

definition setup_logger :: "config \<Rightarrow> state" where
  "setup_logger cfg =
     \<lparr>log = [], email_log = (if email_sendon cfg \<noteq> [] then Some [] else None),
      calls = [], emails = [], webhooks = []\<rparr>"

section \<open>The command runner\<close>

text \<open>\<open>subprocess.CalledProcessError(returncode, cmd)\<close>.\<close>

datatype called_process_error = CalledProcessError int string

text \<open>The loop \<open>for (k, v) in args.items(): arguments.extend(["--" + k, str(v)])\<close>.\<close>

fun extend_flags :: "string list \<Rightarrow> dict \<Rightarrow> string list" where
  "extend_flags acc [] = acc"
| "extend_flags acc ((k, v) # d) = extend_flags (acc @ [''--'' @ k, str_py v]) d"

definition command_argv :: "config \<Rightarrow> string \<Rightarrow> dict \<Rightarrow> dict \<Rightarrow> string list" where
  "command_argv cfg command snapraid_args snapraid_btrfs_args =
     (let snapraid_btrfs_arguments =
            extend_flags [''--quiet'',
                          ''--conf'', snapraid_config cfg,
                          ''--snapper-path'', snapper_executable cfg,
                          ''--snapraid-path'', snapraid_executable cfg] snapraid_btrfs_args;
          snapraid_arguments =
            extend_flags (if command = ''cleanup'' then [] else [''--quiet'']) snapraid_args
      in [snapraid_btrfs_executable cfg] @ snapraid_btrfs_arguments @ [command] @ snapraid_arguments)"

text \<open>
  \<open>tee_log\<close>, once per line: the line is logged without its trailing whitespace, at
  OUTPUT for stdout and OUTERR for stderr; only the stdout lines are kept in \<open>out\<close>.
  The two threads are not modelled as threads: the list of events is the order in which
  their lines reach the logger, chosen by the environment.
\<close>

fun tee_log :: "config \<Rightarrow> env \<Rightarrow> stream_line list \<Rightarrow> string list \<times> state \<Rightarrow> string list \<times> state" where
  "tee_log cfg e [] (out, st) = (out, st)"
| "tee_log cfg e (Out l # ls) (out, st) =
     tee_log cfg e ls (out @ [l], logging_log cfg e OUTPUT (rstrip l) st)"
| "tee_log cfg e (Err l # ls) (out, st) =
     tee_log cfg e ls (out, logging_log cfg e OUTERR (rstrip l) st)"

text \<open>
  \<open>snapraid_btrfs_command\<close>: the result (the exception raised, or the list returned)
  and the state after the call. The child is taken to start (\<open>run\<close> has looked the
  executables up before); the pause after \<open>p.wait()\<close> changes nothing here.
\<close>

definition snapraid_btrfs_command ::
  "config \<Rightarrow> env \<Rightarrow> string \<Rightarrow> dict \<Rightarrow> dict \<Rightarrow> int list \<Rightarrow> state
     \<Rightarrow> (called_process_error + string list) \<times> state" where
  "snapraid_btrfs_command cfg e command snapraid_args snapraid_btrfs_args allow_statuscodes st =
     (let argv = command_argv cfg command snapraid_args snapraid_btrfs_args;
          p = popen e argv;
          (out, st') = tee_log cfg e (events p) ([], st\<lparr>calls := calls st @ [(command, argv)]\<rparr>);
          ret = returncode p
      in if ret = 0 \<or> ret \<in> set allow_statuscodes
         then (Inr out, st')
         else (Inl (CalledProcessError ret (''snapraid-btrfs '' @ command)), st'))"

text \<open>The stdout lines of a child, in the order written.\<close>

fun stdout_lines :: "stream_line list \<Rightarrow> string list" where
  "stdout_lines [] = []"
| "stdout_lines (Out l # ls) = l # stdout_lines ls"
| "stdout_lines (Err l # ls) = stdout_lines ls"

text \<open>
  \<open>str(e)\<close> of a CalledProcessError: a negative return code is a signal, named by
  the platform when it knows the number.
\<close>

definition str_cpe :: "env \<Rightarrow> called_process_error \<Rightarrow> string" where
  "str_cpe e err =
     (case err of CalledProcessError ret cmd \<Rightarrow>
        if ret < 0 then
          (case signal_repr e (- ret) of
             Some name \<Rightarrow> ''Command '' @ [CHR 0x27] @ cmd @ [CHR 0x27] @ '' died with '' @ name @ ''.''
           | None \<Rightarrow> ''Command '' @ [CHR 0x27] @ cmd @ [CHR 0x27] @ '' died with unknown signal ''
                       @ str_int (- ret) @ ''.'')
        else ''Command '' @ [CHR 0x27] @ cmd @ [CHR 0x27] @ '' returned non-zero exit status ''
               @ str_int ret @ ''.'')"

section \<open>The diff classifier\<close>

text \<open>\<open>line.split(" ")[0]\<close>: the text before the first space character.\<close>

definition split_first :: "string \<Rightarrow> string" where
  "split_first line = takeWhile (\<lambda>c. c \<noteq> CHR '' '') line"

text \<open>\<open>Counter(iterable)\<close>: one increment per element; a missing key reads as 0.\<close>

fun Counter :: "(string \<Rightarrow> nat) \<Rightarrow> string list \<Rightarrow> (string \<Rightarrow> nat)" where
  "Counter c [] = c"
| "Counter c (x # xs) = Counter (c(x := c x + 1)) xs"

definition diff_kinds :: "string list" where
  "diff_kinds = [''add'', ''remove'', ''move'', ''update'']"

text \<open>Lines 362 to 364 of \<open>run\<close>: the dict of the four counts, in key order.\<close>

definition classify :: "string list \<Rightarrow> (string \<times> nat) list" where
  "classify diff_out =
     (let diff_results = Counter (\<lambda>_. 0) (map split_first diff_out)
      in map (\<lambda>x. (x, diff_results x)) diff_kinds)"

text \<open>
  \<open>diff_results[k]\<close>. The dict always holds the four kinds (\<open>classify_keys\<close> below),
  which are the only keys read, so the lookup never raises.
\<close>

definition diff_count :: "(string \<times> nat) list \<Rightarrow> string \<Rightarrow> nat" where
  "diff_count d k = (case map_of d k of Some n \<Rightarrow> n | None \<Rightarrow> 0)"

section \<open>Notifications and the finalizer\<close>

text \<open>Python's slice bounds: a negative index counts from the end, both clamp.\<close>

definition slice_index :: "nat \<Rightarrow> int \<Rightarrow> nat" where
  "slice_index n i = (if i < 0 then nat (max 0 (int n + i)) else min n (nat i))"

definition py_slice :: "string \<Rightarrow> int \<Rightarrow> int \<Rightarrow> string" where
  "py_slice s a b = take (slice_index (length s) b - slice_index (length s) a)
                         (drop (slice_index (length s) a) s)"

definition slice_from :: "string \<Rightarrow> int \<Rightarrow> string" where
  "slice_from s a = drop (slice_index (length s) a) s"

definition count_newlines :: "string \<Rightarrow> nat" where
  "count_newlines s = length (filter (\<lambda>c. c = newline) s)"

text \<open>Lines 128 to 136 of \<open>send_email\<close>.\<close>

definition shorten_log :: "int \<Rightarrow> string \<Rightarrow> string" where
  "shorten_log email_maxsize_cfg lg =
     (let maxsize = email_maxsize_cfg * 1024
      in if maxsize \<noteq> 0 \<and> int (length lg) > maxsize then
           (let cut_lines = count_newlines (py_slice lg (maxsize div 2) ((- maxsize) div 2))
            in ''NOTE: Log was too big for email and was shortened'' @ [newline, newline]
               @ py_slice lg 0 (maxsize div 2)
               @ ''[...]'' @ [newline, newline, newline]
               @ '' --- LOG WAS TOO BIG - '' @ str_nat cut_lines @ '' LINES REMOVED --''
               @ [newline, newline, newline] @ ''[...]''
               @ slice_from lg ((- maxsize) div 2))
         else lg)"

definition attribute_error :: string where
  "attribute_error = ''AttributeError: '' @ [CHR 0x27] @ ''NoneType'' @ [CHR 0x27]
     @ '' object has no attribute '' @ [CHR 0x27] @ ''getvalue'' @ [CHR 0x27]"

text \<open>
  \<open>send_email\<close>. The first component is the exception that leaves the function, as
  the text of its traceback; the message composed is recorded when it is handed to
  the SMTP layer.
\<close>

definition send_email :: "config \<Rightarrow> env \<Rightarrow> bool \<Rightarrow> state \<Rightarrow> string option \<times> state" where
  "send_email cfg e success st =
     (if length (smtp_host cfg) = 0 then
        (None, logging_log cfg e ERROR ''Failed to send email because smtp host is not set'' st)
      else
        (case email_log st of
           None \<Rightarrow> (Some attribute_error, st)
         | Some lg \<Rightarrow>
             (let body0 = (if success
                           then ''SnapRAID job completed successfully:'' @ [newline, newline, newline]
                           else ''Error during SnapRAID job:'' @ [newline, newline, newline]);
                  msg = \<lparr>subject = email_subject cfg @ (if success then '' SUCCESS'' else '' ERROR''),
                         sender = email_from cfg,
                         recipient = email_to cfg,
                         body = body0 @ shorten_log (email_maxsize cfg) lg\<rparr>
              in (smtp e msg, st\<lparr>emails := emails st @ [msg]\<rparr>))))"

text \<open>\<open>send_discord_notification\<close>, with the same convention for an exception.\<close>

definition send_discord_notification ::
  "config \<Rightarrow> env \<Rightarrow> bool \<Rightarrow> string \<Rightarrow> state \<Rightarrow> string option \<times> state" where
  "send_discord_notification cfg e success lg st =
     (let p = \<lparr>content = (if success then ''SnapRAID job completed successfully.''
                           else ''Error during SnapRAID job:''),
                title = ''Log'',
                description = lg,
                color = (if success then 65280 else 16711680)\<rparr>;
          st' = st\<lparr>webhooks := webhooks st @ [p]\<rparr>
      in case http_post e p of
           Posted \<Rightarrow> (None, logging_log cfg e INFO ''Discord notification sent successfully.'' st')
         | HTTPError m \<Rightarrow> (None, logging_log cfg e ERROR (''HTTP Error: '' @ m) st')
         | ConnectionError m \<Rightarrow> (None, logging_log cfg e ERROR (''Error Connecting: '' @ m) st')
         | Timeout m \<Rightarrow> (None, logging_log cfg e ERROR (''Timeout Error: '' @ m) st')
         | RequestException m \<Rightarrow> (None, logging_log cfg e ERROR (''Something went wrong: '' @ m) st')
         | OtherException tb \<Rightarrow> (Some tb, st'))"

text \<open>\<open>x in s\<close> for two strings.\<close>

fun contains :: "string \<Rightarrow> string \<Rightarrow> bool" where
  "contains [] x = (x = [])"
| "contains (c # s) x = (take (length x) (c # s) = x \<or> contains s x)"

text \<open>\<open>("error", "success")[is_success]\<close>.\<close>

definition trigger :: "bool \<Rightarrow> string" where
  "trigger is_success = (if is_success then ''success'' else ''error'')"

text \<open>
  \<open>finish\<close>, in its three parts: the email (lines 163 to 167), the webhook (lines
  169 to 174), then the status line and \<open>sys.exit\<close>; the result is the exit status
  and the state at that point. \<open>"discord" in config\<close> is always true, since
  \<open>load_config\<close> creates every section.
\<close>

definition finish_email :: "config \<Rightarrow> env \<Rightarrow> bool \<Rightarrow> state \<Rightarrow> state" where
  "finish_email cfg e is_success st =
     (if contains (email_sendon cfg) (trigger is_success) then
        (case send_email cfg e is_success st of
           (None, s) \<Rightarrow> s
         | (Some tb, s) \<Rightarrow> logging_exception cfg e ''Failed to send email'' tb s)
      else st)"

definition finish_discord :: "config \<Rightarrow> env \<Rightarrow> bool \<Rightarrow> state \<Rightarrow> state" where
  "finish_discord cfg e is_success st =
     (if discord_enabled cfg \<noteq> [] then
        (if contains (discord_sendon cfg) (trigger is_success) then
           (case email_log st of
              None \<Rightarrow>
                logging_exception cfg e ''Failed to send Discord notification'' attribute_error st
            | Some lg \<Rightarrow>
                (case send_discord_notification cfg e is_success lg st of
                   (None, s) \<Rightarrow> s
                 | (Some tb, s) \<Rightarrow>
                     logging_exception cfg e ''Failed to send Discord notification'' tb s))
         else st)
      else st)"

definition finish :: "config \<Rightarrow> env \<Rightarrow> bool \<Rightarrow> state \<Rightarrow> int \<times> state" where
  "finish cfg e is_success st =
     (let st1 = finish_email cfg e is_success st;
          st2 = finish_discord cfg e is_success st1;
          st3 = (if is_success then logging_log cfg e INFO ''Run finished successfully'' st2
                 else logging_log cfg e ERROR ''Run failed'' st2)
      in (if is_success then 0 else 1, st3))"

section \<open>The orchestrator\<close>

text \<open>
  \<open>run\<close> is split where its steps are, last step first; every part carries the
  dict \<open>snapraid_btrfs_args_extend\<close> and the state. A part that always ends in
  \<open>finish\<close> returns the exit status and the final state.
\<close>

definition stars :: string where
  "stars = replicate 60 CHR ''*''"

text \<open>Lines 410 to 427: the arguments of scrub, and the warning.\<close>

definition scrub_args :: "config \<Rightarrow> env \<Rightarrow> state \<Rightarrow> dict \<times> state" where
  "scrub_args cfg e st =
     (case py_int (scrub_plan cfg) of
        None \<Rightarrow>
          ([(''plan'', PyStr (scrub_plan cfg))],
           if scrub_older_than cfg > 0 then
             logging_log cfg e WARNING
               (''Ignoring '' @ [CHR 0x27] @ ''older-than'' @ [CHR 0x27]
                  @ '' config item with scrub plan '' @ [CHR 0x27] @ scrub_plan cfg @ [CHR 0x27]) st
           else st)
      | Some _ \<Rightarrow>
          ([(''plan'', PyStr (scrub_plan cfg)), (''older-than'', PyInt (scrub_older_than cfg))], st))"

text \<open>Lines 410 to 436.\<close>

definition run_scrub :: "config \<Rightarrow> env \<Rightarrow> dict \<Rightarrow> state \<Rightarrow> int \<times> state" where
  "run_scrub cfg e snapraid_btrfs_args_extend st =
     (if scrub_enabled cfg then
        (let (snapraid_args_extend, st1) =
               scrub_args cfg e (logging_log cfg e INFO ''Running scrub...'' st)
         in case snapraid_btrfs_command cfg e ''scrub'' snapraid_args_extend
                   snapraid_btrfs_args_extend [] st1 of
              (Inl err, st2) \<Rightarrow> finish cfg e False (logging_log cfg e ERROR (str_cpe e err) st2)
            | (Inr _, st2) \<Rightarrow>
                finish cfg e True
                  (logging_log cfg e INFO ''All done'' (logging_log cfg e INFO stars st2)))
      else finish cfg e True (logging_log cfg e INFO ''All done'' st))"

text \<open>Lines 401 to 408, then the rest.\<close>

definition run_cleanup :: "config \<Rightarrow> env \<Rightarrow> dict \<Rightarrow> state \<Rightarrow> int \<times> state" where
  "run_cleanup cfg e snapraid_btrfs_args_extend st =
     (if cleanup cfg then
        (case snapraid_btrfs_command cfg e ''cleanup'' [] snapraid_btrfs_args_extend []
                (logging_log cfg e INFO ''Running cleanup...'' st) of
           (Inl err, st1) \<Rightarrow> finish cfg e False (logging_log cfg e ERROR (str_cpe e err) st1)
         | (Inr _, st1) \<Rightarrow>
             run_scrub cfg e snapraid_btrfs_args_extend (logging_log cfg e INFO stars st1))
      else run_scrub cfg e snapraid_btrfs_args_extend st)"

text \<open>Lines 389 to 398, then the rest: the dict is updated in place and stays so.\<close>

definition run_pool :: "config \<Rightarrow> env \<Rightarrow> dict \<Rightarrow> state \<Rightarrow> int \<times> state" where
  "run_pool cfg e snapraid_btrfs_args_extend st =
     (if pool cfg then
        (let st1 = logging_log cfg e INFO ''Running pool...'' st;
             args = (if length (pool_dir cfg) > 0
                     then dict_set snapraid_btrfs_args_extend ''pool-dir'' (PyStr (pool_dir cfg))
                     else snapraid_btrfs_args_extend)
         in case snapraid_btrfs_command cfg e ''pool'' [] args [] st1 of
              (Inl err, st2) \<Rightarrow> finish cfg e False (logging_log cfg e ERROR (str_cpe e err) st2)
            | (Inr _, st2) \<Rightarrow> run_cleanup cfg e args (logging_log cfg e INFO stars st2))
      else run_cleanup cfg e snapraid_btrfs_args_extend st)"

text \<open>Lines 376 to 386, then the rest.\<close>

definition run_sync ::
  "config \<Rightarrow> env \<Rightarrow> dict \<Rightarrow> (string \<times> nat) list \<Rightarrow> state \<Rightarrow> int \<times> state" where
  "run_sync cfg e snapraid_btrfs_args_extend diff_results st =
     (if diff_count diff_results ''remove'' + diff_count diff_results ''add''
           + diff_count diff_results ''move'' + diff_count diff_results ''update'' = 0 then
        run_pool cfg e snapraid_btrfs_args_extend
          (logging_log cfg e INFO ''No changes detected, no sync required'' st)
      else
        (case snapraid_btrfs_command cfg e ''sync'' [] snapraid_btrfs_args_extend []
                (logging_log cfg e INFO ''Running sync...'' st) of
           (Inl err, st1) \<Rightarrow> finish cfg e False (logging_log cfg e ERROR (str_cpe e err) st1)
         | (Inr _, st1) \<Rightarrow>
             run_pool cfg e snapraid_btrfs_args_extend (logging_log cfg e INFO stars st1)))"

text \<open>Lines 362 to 374, then the rest: the counts, their log line, the threshold.\<close>

definition run_threshold :: "config \<Rightarrow> env \<Rightarrow> dict \<Rightarrow> string list \<Rightarrow> state \<Rightarrow> int \<times> state" where
  "run_threshold cfg e snapraid_btrfs_args_extend diff_out st =
     (let diff_results = classify diff_out;
          st1 = logging_log cfg e INFO
                  (''Diff results: '' @ str_nat (diff_count diff_results ''add'') @ '' added,  ''
                     @ str_nat (diff_count diff_results ''remove'') @ '' removed,  ''
                     @ str_nat (diff_count diff_results ''move'') @ '' moved,  ''
                     @ str_nat (diff_count diff_results ''update'') @ '' modified'') st
      in if deletethreshold cfg \<ge> 0
            \<and> int (diff_count diff_results ''remove'') > deletethreshold cfg then
           finish cfg e False
             (logging_log cfg e ERROR ''Run again with --ignore-deletethreshold to sync anyways''
                (logging_log cfg e ERROR
                   (''Deleted files exceed delete threshold of '' @ str_int (deletethreshold cfg)
                      @ '', aborting'') st1))
         else run_sync cfg e snapraid_btrfs_args_extend diff_results st1)"

text \<open>
  What \<open>run\<close> ends in: \<open>sys.exit\<close> inside \<open>finish\<close>, or a CalledProcessError
  that nothing in \<open>run\<close> catches (from touch and from diff).
\<close>

datatype result = SysExit int state | Raised called_process_error state

text \<open>Lines 345 to 351: the dict the commands share.\<close>

definition initial_args :: "config \<Rightarrow> dict" where
  "initial_args cfg =
     (let d0 = [];
          d1 = (if length (snapper_configs cfg) > 0
                then dict_set d0 ''snapper-configs'' (PyStr (snapper_configs cfg)) else d0);
          d2 = (if length (snapper_configs_file cfg) > 0
                then dict_set d1 ''snapper-configs-file'' (PyStr (snapper_configs_file cfg)) else d1)
      in d2)"

text \<open>Lines 358 to 360, then the rest.\<close>

definition run_diff :: "config \<Rightarrow> env \<Rightarrow> dict \<Rightarrow> state \<Rightarrow> result" where
  "run_diff cfg e snapraid_btrfs_args_extend st =
     (case snapraid_btrfs_command cfg e ''diff'' [] snapraid_btrfs_args_extend [2]
             (logging_log cfg e INFO ''Running diff...'' st) of
        (Inl err, st1) \<Rightarrow> Raised err st1
      | (Inr diff_out, st1) \<Rightarrow>
          (case run_threshold cfg e snapraid_btrfs_args_extend diff_out
                  (logging_log cfg e INFO stars st1) of
             (code, st2) \<Rightarrow> SysExit code st2))"

text \<open>Lines 345 to 356, then the rest.\<close>

definition run_touch :: "config \<Rightarrow> env \<Rightarrow> state \<Rightarrow> result" where
  "run_touch cfg e st =
     (let snapraid_btrfs_args_extend = initial_args cfg
      in if snapraid_touch cfg then
           (case snapraid_btrfs_command cfg e ''touch'' [] snapraid_btrfs_args_extend []
                   (logging_log cfg e INFO ''Running touch...'' st) of
              (Inl err, st1) \<Rightarrow> Raised err st1
            | (Inr _, st1) \<Rightarrow>
                run_diff cfg e snapraid_btrfs_args_extend (logging_log cfg e INFO stars st1))
         else run_diff cfg e snapraid_btrfs_args_extend st)"

definition exited :: "int \<times> state \<Rightarrow> result" where
  "exited r = SysExit (fst r) (snd r)"

text \<open>\<open>run\<close>: the banner and the four checks of lines 323 to 343, then the steps.\<close>

definition run :: "config \<Rightarrow> env \<Rightarrow> state \<Rightarrow> result" where
  "run cfg e st0 =
     (let st = logging_log cfg e INFO (replicate 60 CHR ''='')
                 (logging_log cfg e INFO ''Run started''
                    (logging_log cfg e INFO (replicate 60 CHR ''='') st0))
      in if \<not> which e (snapraid_executable cfg) then
           exited (finish cfg e False
             (logging_log cfg e ERROR
                (''The configured snapraid executable '' @ [CHR 0x22] @ snapraid_executable cfg
                   @ [CHR 0x22] @ '' does not exist or is not a file'') st))
         else if \<not> isfile e (snapraid_config cfg) then
           exited (finish cfg e False
             (logging_log cfg e ERROR
                (''Snapraid config does not exist at '' @ snapraid_config cfg) st))
         else if \<not> which e (snapraid_btrfs_executable cfg) then
           exited (finish cfg e False
             (logging_log cfg e ERROR
                (''Snapraid-btrfs executable does not exist at '' @ snapraid_btrfs_executable cfg) st))
         else if \<not> which e (snapper_executable cfg) then
           exited (finish cfg e False
             (logging_log cfg e ERROR
                (''Snapper executable does not exist at '' @ snapper_executable cfg) st))
         else run_touch cfg e st)"

text \<open>
  Lines 315 to 319 of \<open>main\<close>, after \<open>setup_logger\<close>: an exception out of \<open>run\<close>
  is logged with its traceback and the run finishes as failed. The exit status and
  the final state.
\<close>

definition main :: "config \<Rightarrow> env \<Rightarrow> int \<times> state" where
  "main cfg e =
     (case run cfg e (setup_logger cfg) of
        SysExit code st \<Rightarrow> (code, st)
      | Raised err st \<Rightarrow>
          finish cfg e False
            (logging_exception cfg e ''Run failed due to unexpected exception:''
               (''subprocess.CalledProcessError: '' @ str_cpe e err) st))"

section \<open>Reference notions and example inputs\<close>

text \<open>The records the two tees of one child hand to the logger.\<close>

fun tee_records :: "stream_line list \<Rightarrow> (level \<times> string) list" where
  "tee_records [] = []"
| "tee_records (Out l # ls) = (OUTPUT, rstrip l) # tee_records ls"
| "tee_records (Err l # ls) = (OUTERR, rstrip l) # tee_records ls"

text \<open>The flags one argument dict contributes, in the order of its keys.\<close>

definition flags :: "dict \<Rightarrow> string list" where
  "flags d = concat (map (\<lambda>(k, v). [''--'' @ k, str_py v]) d)"

text \<open>
  A configuration with every step but touch enabled, and an environment in which every
  path exists, diff prints the given lines and exits with 2, the commands named in
  \<open>failing\<close> exit with 1 and every other command exits with 0.
\<close>

definition example_config :: config where
  "example_config =
     \<lparr>snapraid_config = ''/etc/snapraid.conf'', snapraid_executable = ''snapraid'',
      snapraid_touch = False, deletethreshold = 5, snapper_executable = ''snapper'',
      snapraid_btrfs_executable = ''snapraid-btrfs'', snapper_configs = [],
      snapper_configs_file = [], pool = True, pool_dir = ''/mnt/pool'', cleanup = True,
      scrub_enabled = True, scrub_plan = ''80'', scrub_older_than = 30,
      email_sendon = ''error'', email_short = False, email_maxsize = 1,
      email_subject = ''[SnapRAID]'', email_from = ''nas@example.org'',
      email_to = ''admin@example.org'', smtp_host = ''localhost'',
      discord_enabled = ''true'', discord_sendon = ''success,error''\<rparr>"

definition example_env :: "string list \<Rightarrow> string list \<Rightarrow> env" where
  "example_env diff_lines failing =
     \<lparr>which = (\<lambda>_. True), isfile = (\<lambda>_. True),
      popen = (\<lambda>argv. if ''diff'' \<in> set argv then \<lparr>events = map Out diff_lines, returncode = 2\<rparr>
                       else if \<exists>c \<in> set failing. c \<in> set argv
                       then \<lparr>events = [Err (''failed'' @ [newline])], returncode = 1\<rparr>
                       else \<lparr>events = [], returncode = 0\<rparr>),
      asctime = (\<lambda>_. ''2024-01-01 00:00:00,000''), signal_repr = (\<lambda>_. None),
      smtp = (\<lambda>_. None), http_post = (\<lambda>_. Posted)\<rparr>"

text \<open>
  The change kind of a line in the words of the specification, its leading
  whitespace-delimited token, and the count of the lines of a kind under that reading;
  then the count under the reading of the code, the text before the first space.
\<close>

definition leading_token :: "string \<Rightarrow> string" where
  "leading_token line = takeWhile (\<lambda>c. \<not> py_isspace c) (dropWhile py_isspace line)"

definition spec_count :: "string \<Rightarrow> string list \<Rightarrow> nat" where
  "spec_count kind lines = length (filter (\<lambda>l. leading_token l = kind) lines)"

definition token_count :: "string \<Rightarrow> string list \<Rightarrow> nat" where
  "token_count kind lines = length (filter (\<lambda>l. split_first l = kind) lines)"

definition example_diff :: "string list" where
  "example_diff = [''add a'' @ [newline], ''add b'' @ [newline], ''remove c'' @ [newline],
                   ''      13 equal'' @ [newline]]"

text \<open>
  The log and the email buffer of the second state continue those of the first.
\<close>

definition grows :: "state \<Rightarrow> state \<Rightarrow> bool" where
  "grows st st' = ((\<exists>ext. log st' = log st @ ext)
      \<and> (\<forall>lg. email_log st = Some lg \<longrightarrow> (\<exists>x. email_log st' = Some (lg @ x))))"

text \<open>An environment in which both transports raise.\<close>

definition failing_notifiers_env :: env where
  "failing_notifiers_env =
     (example_env [] [])\<lparr>smtp := (\<lambda>_. Some ''smtplib.SMTPServerDisconnected''),
                         http_post := (\<lambda>_. OtherException ''TypeError'')\<rparr>"

text \<open>A log buffer of 205 lines, 1025 characters, and a state that holds it.\<close>

definition long_log :: string where
  "long_log = concat (replicate 205 (''line'' @ [newline]))"

definition long_log_state :: state where
  "long_log_state = (setup_logger example_config)\<lparr>email_log := Some long_log\<rparr>"

text \<open>
  A command exits with 0; the shared dict as the pool step leaves it; the commands
  spawned between two states.
\<close>

definition exits_ok :: "config \<Rightarrow> env \<Rightarrow> string \<Rightarrow> dict \<Rightarrow> dict \<Rightarrow> bool" where
  "exits_ok cfg e command sargs bargs =
     (returncode (popen e (command_argv cfg command sargs bargs)) = 0)"

definition pool_args :: "config \<Rightarrow> dict \<Rightarrow> dict" where
  "pool_args cfg args =
     (if pool cfg \<and> length (pool_dir cfg) > 0
      then dict_set args ''pool-dir'' (PyStr (pool_dir cfg)) else args)"

definition new_commands :: "state \<Rightarrow> state \<Rightarrow> string list" where
  "new_commands st st' = drop (length (calls st)) (map fst (calls st'))"

text \<open>A diff output without any change line.\<close>

definition unchanged_diff :: "string list" where
  "unchanged_diff = [''      13 equal'' @ [newline], ''No differences'' @ [newline]]"

section \<open>Properties of logging and of the command runner\<close>

lemma logging_log_fields [simp]:
  "log (logging_log cfg e lvl msg st) = log st @ [(lvl, msg)]"
  "calls (logging_log cfg e lvl msg st) = calls st"
  "emails (logging_log cfg e lvl msg st) = emails st"
  "webhooks (logging_log cfg e lvl msg st) = webhooks st"
  by (simp_all add: logging_log_def)

lemma logging_exception_fields [simp]:
  "log (logging_exception cfg e msg tb st) = log st @ [(ERROR, msg @ [newline] @ tb)]"
  "calls (logging_exception cfg e msg tb st) = calls st"
  "emails (logging_exception cfg e msg tb st) = emails st"
  "webhooks (logging_exception cfg e msg tb st) = webhooks st"
  by (simp_all add: logging_exception_def)

lemma extend_flags_append: "extend_flags acc d = acc @ flags d"
  unfolding flags_def by (induction d arbitrary: acc) auto

lemma tee_log_out: "fst (tee_log cfg e ls (out, st)) = out @ stdout_lines ls"
  by (induction ls arbitrary: out st rule: stdout_lines.induct) auto

lemma tee_log_calls: "calls (snd (tee_log cfg e ls (out, st))) = calls st"
  by (induction ls arbitrary: out st rule: stdout_lines.induct) auto

lemma tee_log_emails: "emails (snd (tee_log cfg e ls (out, st))) = emails st"
  by (induction ls arbitrary: out st rule: stdout_lines.induct) auto

lemma tee_log_webhooks: "webhooks (snd (tee_log cfg e ls (out, st))) = webhooks st"
  by (induction ls arbitrary: out st rule: stdout_lines.induct) auto

lemma tee_log_log: "log (snd (tee_log cfg e ls (out, st))) = log st @ tee_records ls"
  by (induction ls arbitrary: out st rule: stdout_lines.induct) auto

lemma sbc_fst:
  "fst (snapraid_btrfs_command cfg e command sargs bargs allow st) =
     (if returncode (popen e (command_argv cfg command sargs bargs)) = 0
         \<or> returncode (popen e (command_argv cfg command sargs bargs)) \<in> set allow
      then Inr (stdout_lines (events (popen e (command_argv cfg command sargs bargs))))
      else Inl (CalledProcessError (returncode (popen e (command_argv cfg command sargs bargs)))
                  (''snapraid-btrfs '' @ command)))"
  by (simp add: snapraid_btrfs_command_def Let_def split_beta tee_log_out)

lemma sbc_calls:
  "calls (snd (snapraid_btrfs_command cfg e command sargs bargs allow st)) =
     calls st @ [(command, command_argv cfg command sargs bargs)]"
  by (simp add: snapraid_btrfs_command_def Let_def split_beta tee_log_calls)

lemma sbc_log:
  "log (snd (snapraid_btrfs_command cfg e command sargs bargs allow st)) =
     log st @ tee_records (events (popen e (command_argv cfg command sargs bargs)))"
  by (simp add: snapraid_btrfs_command_def Let_def split_beta tee_log_log)

lemma command_argv_layout:
  "command_argv cfg command sargs bargs =
     [snapraid_btrfs_executable cfg, ''--quiet'',
      ''--conf'', snapraid_config cfg,
      ''--snapper-path'', snapper_executable cfg,
      ''--snapraid-path'', snapraid_executable cfg]
     @ flags bargs @ [command]
     @ (if command = ''cleanup'' then [] else [''--quiet'']) @ flags sargs"
  by (simp add: command_argv_def Let_def extend_flags_append)

text \<open>
  C1. Whatever the command, the argument dicts, the allowed codes and the state:
  when the exit code of the child is 0 or one of \<open>allowedExtraCodes\<close>, the call
  returns the stdout lines of the child as they were written; for any other exit
  code it raises a CalledProcessError that holds this exit code and the command name
  (after the prefix \<open>snapraid-btrfs\<close>).
\<close>

theorem execute_classifies_exit_code:
  "fst (snapraid_btrfs_command cfg e command snapraid_args snapraid_btrfs_args
          allowedExtraCodes st) =
     (if returncode (popen e (command_argv cfg command snapraid_args snapraid_btrfs_args)) = 0
         \<or> returncode (popen e (command_argv cfg command snapraid_args snapraid_btrfs_args))
              \<in> set allowedExtraCodes
      then Inr (stdout_lines
                  (events (popen e (command_argv cfg command snapraid_args snapraid_btrfs_args))))
      else Inl (CalledProcessError
                  (returncode (popen e (command_argv cfg command snapraid_args snapraid_btrfs_args)))
                  (''snapraid-btrfs '' @ command)))"
  by (rule sbc_fst)

theorem execute_classifies_exit_code_witness:
  "fst (snapraid_btrfs_command example_config (example_env [''add a'', ''remove c''] [''sync''])
          ''diff'' [] [] [2] (setup_logger example_config)) = Inr [''add a'', ''remove c'']
   \<and> fst (snapraid_btrfs_command example_config (example_env [''add a'', ''remove c''] [''sync''])
          ''sync'' [] [] [] (setup_logger example_config))
       = Inl (CalledProcessError 1 ''snapraid-btrfs sync'')"
  using execute_classifies_exit_code [of example_config "example_env [''add a'', ''remove c''] [''sync'']"
          "''diff''" "[]" "[]" "[2]" "setup_logger example_config"]
        execute_classifies_exit_code [of example_config "example_env [''add a'', ''remove c''] [''sync'']"
          "''sync''" "[]" "[]" "[]" "setup_logger example_config"]
  by (simp add: example_env_def example_config_def command_argv_def)

text \<open>
  C7. The argument vector is a function of the configuration, the command and the two
  argument dicts: after the program and its quiet flag come the connection flags
  (config path, snapper path, snapraid path), then the flags of the caller's dict
  \<open>snapraid_btrfs_args\<close> in the order of its keys, then the command, then the flags
  of the command: \<open>--quiet\<close> and the caller's \<open>snapraid_args\<close>, where cleanup gets
  no \<open>--quiet\<close>.
\<close>

theorem argument_vector_order:
  "command_argv cfg command snapraid_args snapraid_btrfs_args =
     [snapraid_btrfs_executable cfg, ''--quiet'',
      ''--conf'', snapraid_config cfg,
      ''--snapper-path'', snapper_executable cfg,
      ''--snapraid-path'', snapraid_executable cfg]
     @ concat (map (\<lambda>(k, v). [''--'' @ k, str_py v]) snapraid_btrfs_args)
     @ [command]
     @ (if command = ''cleanup'' then [] else [''--quiet''])
     @ concat (map (\<lambda>(k, v). [''--'' @ k, str_py v]) snapraid_args)"
  by (simp add: command_argv_layout flags_def)

theorem argument_vector_order_witness:
  "command_argv example_config ''cleanup'' [] [(''snapper-configs'', PyStr ''data1'')] =
     [''snapraid-btrfs'', ''--quiet'', ''--conf'', ''/etc/snapraid.conf'',
      ''--snapper-path'', ''snapper'', ''--snapraid-path'', ''snapraid'',
      ''--snapper-configs'', ''data1'', ''cleanup'']
   \<and> command_argv example_config ''scrub'' [(''plan'', PyStr ''full'')]
        [(''snapper-configs'', PyStr ''data1''), (''pool-dir'', PyStr ''/mnt/pool'')] =
     [''snapraid-btrfs'', ''--quiet'', ''--conf'', ''/etc/snapraid.conf'',
      ''--snapper-path'', ''snapper'', ''--snapraid-path'', ''snapraid'',
      ''--snapper-configs'', ''data1'', ''--pool-dir'', ''/mnt/pool'', ''scrub'',
      ''--quiet'', ''--plan'', ''full'']"
  using argument_vector_order [of example_config "''cleanup''" "[]"
          "[(''snapper-configs'', PyStr ''data1'')]"]
        argument_vector_order [of example_config "''scrub''" "[(''plan'', PyStr ''full'')]"
          "[(''snapper-configs'', PyStr ''data1''), (''pool-dir'', PyStr ''/mnt/pool'')]"]
  by (simp add: example_config_def)

section \<open>Properties of the diff classifier\<close>

lemma Counter_count: "Counter c xs k = c k + length (filter (\<lambda>x. x = k) xs)"
  by (induction xs arbitrary: c) auto

lemma classify_token_count:
  "classify lines = map (\<lambda>x. (x, token_count x lines)) diff_kinds"
  by (simp add: classify_def Let_def Counter_count token_count_def filter_map comp_def)

lemma classify_keys: "map fst (classify lines) = [''add'', ''remove'', ''move'', ''update'']"
  by (simp add: classify_token_count diff_kinds_def)

lemma diff_count_classify:
  "diff_count (classify lines) ''add'' = token_count ''add'' lines"
  "diff_count (classify lines) ''remove'' = token_count ''remove'' lines"
  "diff_count (classify lines) ''move'' = token_count ''move'' lines"
  "diff_count (classify lines) ''update'' = token_count ''update'' lines"
  by (simp_all add: classify_token_count diff_kinds_def diff_count_def)

lemma token_count_Nil: "token_count k [] = 0"
  by (simp add: token_count_def)

lemma token_count_Cons:
  "token_count k (l # ls) = (if split_first l = k then 1 else 0) + token_count k ls"
  by (simp add: token_count_def)

lemma token_count_sum:
  "token_count ''add'' lines + token_count ''remove'' lines + token_count ''move'' lines
     + token_count ''update'' lines \<le> length lines"
  by (induction lines) (auto simp: token_count_Cons token_count_Nil)

lemma token_count_recognised:
  "k \<in> set diff_kinds \<Longrightarrow>
     token_count k (filter (\<lambda>l. split_first l \<in> set diff_kinds) lines) = token_count k lines"
  by (induction lines) (auto simp: token_count_Cons token_count_Nil)

text \<open>
  C3, as the code has it. For every list of lines \<open>classify\<close> returns a dict with
  exactly the keys add, remove, move, update; the count of a kind (a natural number) is
  the number of lines whose text before the first space character is that kind; lines
  with any other leading text change nothing; the four counts add up to at most the
  number of lines. (A HOL function is total and deterministic.)
\<close>

theorem classify_counts:
  "map fst (classify lines) = [''add'', ''remove'', ''move'', ''update'']
   \<and> (\<forall>kind \<in> set diff_kinds. diff_count (classify lines) kind = token_count kind lines)
   \<and> classify (filter (\<lambda>l. split_first l \<in> set diff_kinds) lines) = classify lines
   \<and> diff_count (classify lines) ''add'' + diff_count (classify lines) ''remove''
       + diff_count (classify lines) ''move'' + diff_count (classify lines) ''update''
       \<le> length lines"
proof -
  have "classify (filter (\<lambda>l. split_first l \<in> set diff_kinds) lines) = classify lines"
    unfolding classify_token_count by (simp add: token_count_recognised)
  moreover have "\<forall>kind \<in> set diff_kinds. diff_count (classify lines) kind = token_count kind lines"
    by (simp add: diff_kinds_def diff_count_classify)
  ultimately show ?thesis
    using token_count_sum [of lines] by (simp add: classify_keys diff_count_classify)
qed

theorem classify_counts_witness:
  "classify example_diff = [(''add'', 2), (''remove'', 1), (''move'', 0), (''update'', 0)]
   \<and> classify (filter (\<lambda>l. split_first l \<in> set diff_kinds) example_diff) = classify example_diff"
  using classify_counts [of example_diff]
  by (simp add: classify_token_count diff_kinds_def token_count_def example_diff_def
        split_first_def)

text \<open>
  C3 as stated fails where the two readings of the leading token differ: a line whose
  kind is followed by a tab (or by the end of the line) is a line of that kind under
  the whitespace reading and is not counted by the code.
\<close>

theorem classify_whitespace_counterexample:
  "diff_count (classify [''remove'' @ [CHR 0x09] @ ''c'' @ [newline]]) ''remove''
     \<noteq> spec_count ''remove'' [''remove'' @ [CHR 0x09] @ ''c'' @ [newline]]"
  by (simp add: diff_count_classify token_count_def spec_count_def split_first_def
        leading_token_def py_isspace_def newline_def)

section \<open>Properties of the finalizer\<close>

lemma grows_refl: "grows st st"
  by (simp add: grows_def)

lemma grows_trans: "grows a b \<Longrightarrow> grows b c \<Longrightarrow> grows a c"
  unfolding grows_def by (metis append.assoc)

lemma grows_logging_log: "grows st (logging_log cfg e lvl msg st)"
  by (auto simp: grows_def logging_log_def split: option.splits)

lemma grows_logging_exception: "grows st (logging_exception cfg e msg tb st)"
  by (simp add: logging_exception_def grows_logging_log)

lemma grows_fields [simp]:
  "grows st (st\<lparr>emails := m\<rparr>)"
  "grows st (st\<lparr>webhooks := w\<rparr>)"
  "grows st (st\<lparr>calls := c\<rparr>)"
  by (simp_all add: grows_def)

lemma grows_send_email: "grows st (snd (send_email cfg e b st))"
  by (simp add: send_email_def Let_def grows_logging_log grows_refl split: option.splits)

lemma grows_send_discord: "grows st (snd (send_discord_notification cfg e b lg st))"
  by (auto simp: send_discord_notification_def Let_def split: post_result.splits
        intro: grows_trans [OF grows_fields(2) grows_logging_log])

lemma grows_finish_email: "grows st (finish_email cfg e b st)"
  by (auto simp: finish_email_def split_beta grows_refl grows_send_email split: option.splits
        intro: grows_trans [OF grows_send_email grows_logging_exception])

lemma grows_finish_discord: "grows st (finish_discord cfg e b st)"
  by (auto simp: finish_discord_def split_beta grows_refl grows_send_discord
        grows_logging_exception split: option.splits
        intro: grows_trans [OF grows_send_discord grows_logging_exception])

lemma grows_finish: "grows st (snd (finish cfg e b st))"
  by (auto simp: finish_def Let_def
        intro: grows_trans [OF grows_finish_email grows_trans [OF grows_finish_discord grows_logging_log]])

lemma grows_mem: "grows a b \<Longrightarrow> x \<in> set (log a) \<Longrightarrow> x \<in> set (log b)"
  by (auto simp: grows_def)

lemma grows_after_email: "grows (finish_email cfg e b st) (snd (finish cfg e b st))"
  by (auto simp: finish_def Let_def intro: grows_trans [OF grows_finish_discord grows_logging_log])

lemma grows_after_discord:
  "grows (finish_discord cfg e b (finish_email cfg e b st)) (snd (finish cfg e b st))"
  by (auto simp: finish_def Let_def intro: grows_logging_log)

lemma finish_fst: "fst (finish cfg e b st) = (if b then 0 else 1)"
  by (simp add: finish_def Let_def)

lemma finish_last:
  "last (log (snd (finish cfg e b st))) =
     (if b then (INFO, ''Run finished successfully'') else (ERROR, ''Run failed''))"
  by (simp add: finish_def Let_def)

lemma finish_email_failure:
  "contains (email_sendon cfg) (trigger b) \<Longrightarrow> fst (send_email cfg e b st) = Some tb \<Longrightarrow>
     (ERROR, ''Failed to send email'' @ [newline] @ tb) \<in> set (log (finish_email cfg e b st))"
  by (simp add: finish_email_def split_beta)

lemma finish_discord_failure:
  "discord_enabled cfg \<noteq> [] \<Longrightarrow> contains (discord_sendon cfg) (trigger b) \<Longrightarrow>
     (case email_log st of
        None \<Rightarrow> (ERROR, ''Failed to send Discord notification'' @ [newline] @ attribute_error)
                  \<in> set (log (finish_discord cfg e b st))
      | Some lg \<Rightarrow>
          (case fst (send_discord_notification cfg e b lg st) of
             None \<Rightarrow> True
           | Some tb \<Rightarrow> (ERROR, ''Failed to send Discord notification'' @ [newline] @ tb)
                  \<in> set (log (finish_discord cfg e b st))))"
  by (simp add: finish_discord_def split_beta split: option.splits)

text \<open>
  C8. Whatever the two transports do, \<open>finish\<close> ends the process with status 0
  when the run succeeded and 1 when it failed, and its last log record is the status
  line. An exception that leaves \<open>send_email\<close> or \<open>send_discord_notification\<close>
  (or the read of a missing log buffer) is logged as an error with its traceback, and
  nothing else comes of it.
\<close>

theorem finish_outcome:
  "fst (finish cfg e is_success st) = (if is_success then 0 else 1)
   \<and> last (log (snd (finish cfg e is_success st))) =
       (if is_success then (INFO, ''Run finished successfully'') else (ERROR, ''Run failed''))
   \<and> (contains (email_sendon cfg) (trigger is_success) \<longrightarrow>
        (case fst (send_email cfg e is_success st) of
           None \<Rightarrow> True
         | Some tb \<Rightarrow> (ERROR, ''Failed to send email'' @ [newline] @ tb)
                        \<in> set (log (snd (finish cfg e is_success st)))))
   \<and> (discord_enabled cfg \<noteq> [] \<and> contains (discord_sendon cfg) (trigger is_success) \<longrightarrow>
        (case email_log (finish_email cfg e is_success st) of
           None \<Rightarrow> (ERROR, ''Failed to send Discord notification'' @ [newline] @ attribute_error)
                     \<in> set (log (snd (finish cfg e is_success st)))
         | Some lg \<Rightarrow>
             (case fst (send_discord_notification cfg e is_success lg
                          (finish_email cfg e is_success st)) of
                None \<Rightarrow> True
              | Some tb \<Rightarrow> (ERROR, ''Failed to send Discord notification'' @ [newline] @ tb)
                             \<in> set (log (snd (finish cfg e is_success st))))))"
proof -
  have "contains (email_sendon cfg) (trigger is_success) \<longrightarrow>
        (case fst (send_email cfg e is_success st) of
           None \<Rightarrow> True
         | Some tb \<Rightarrow> (ERROR, ''Failed to send email'' @ [newline] @ tb)
                        \<in> set (log (snd (finish cfg e is_success st))))"
    using finish_email_failure [where cfg = cfg and b = is_success and e = e and st = st]
    by (auto split: option.splits intro: grows_mem [OF grows_after_email])
  moreover have "discord_enabled cfg \<noteq> [] \<and> contains (discord_sendon cfg) (trigger is_success) \<longrightarrow>
        (case email_log (finish_email cfg e is_success st) of
           None \<Rightarrow> (ERROR, ''Failed to send Discord notification'' @ [newline] @ attribute_error)
                     \<in> set (log (snd (finish cfg e is_success st)))
         | Some lg \<Rightarrow>
             (case fst (send_discord_notification cfg e is_success lg
                          (finish_email cfg e is_success st)) of
                None \<Rightarrow> True
              | Some tb \<Rightarrow> (ERROR, ''Failed to send Discord notification'' @ [newline] @ tb)
                             \<in> set (log (snd (finish cfg e is_success st)))))"
    using finish_discord_failure [where cfg = cfg and b = is_success and e = e
            and st = "finish_email cfg e is_success st"]
    by (auto split: option.splits intro: grows_mem [OF grows_after_discord])
  ultimately show ?thesis
    by (simp only: finish_fst finish_last simp_thms)
qed

theorem finish_outcome_witness:
  "fst (finish example_config failing_notifiers_env False (setup_logger example_config)) = 1
   \<and> (ERROR, ''Failed to send email'' @ [newline] @ ''smtplib.SMTPServerDisconnected'')
        \<in> set (log (snd (finish example_config failing_notifiers_env False
                             (setup_logger example_config))))
   \<and> (ERROR, ''Failed to send Discord notification'' @ [newline] @ ''TypeError'')
        \<in> set (log (snd (finish example_config failing_notifiers_env False
                             (setup_logger example_config))))"
  using finish_outcome [of example_config failing_notifiers_env False "setup_logger example_config"]
  by (simp add: example_config_def failing_notifiers_env_def example_env_def setup_logger_def
        trigger_def send_email_def finish_email_def send_discord_notification_def
        logging_exception_def logging_log_def Let_def)

lemma length_long_log: "length long_log = 1025"
  by (simp add: long_log_def length_concat sum_list_replicate)

lemma hd_long_log: "hd long_log = CHR ''l''"
proof -
  have "replicate 205 (''line'' @ [newline]) = (''line'' @ [newline]) # replicate 204 (''line'' @ [newline])"
    by (simp add: replicate_Suc [symmetric] del: replicate_Suc)
  then show ?thesis by (simp add: long_log_def)
qed

lemma shorten_log_small:
  "m = 0 \<or> int (length lg) \<le> m * 1024 \<Longrightarrow> shorten_log m lg = lg"
  by (auto simp: shorten_log_def Let_def)

lemma shorten_log_big:
  assumes "0 < m" "m * 1024 < int (length lg)"
  shows "shorten_log m lg =
     ''NOTE: Log was too big for email and was shortened'' @ [newline, newline]
       @ take (nat (m * 512)) lg
       @ ''[...]'' @ [newline, newline, newline]
       @ '' --- LOG WAS TOO BIG - ''
       @ str_nat (count_newlines (take (length lg - 2 * nat (m * 512)) (drop (nat (m * 512)) lg)))
       @ '' LINES REMOVED --'' @ [newline, newline, newline] @ ''[...]''
       @ drop (length lg - nat (m * 512)) lg"
proof -
  have a: "(m * 1024) div 2 = m * 512" by simp
  have b: "(- (m * 1024)) div 2 = - (m * 512)" by simp
  have h: "nat (m * 512) \<le> length lg" using assms by linarith
  have c: "slice_index (length lg) (m * 512) = nat (m * 512)"
    using assms h by (simp add: slice_index_def)
  have d: "slice_index (length lg) (- (m * 512)) = length lg - nat (m * 512)"
    using assms h by (simp add: slice_index_def nat_diff_distrib')
  have z: "slice_index (length lg) 0 = 0" by (simp add: slice_index_def)
  have e: "length lg - nat (m * 512) - nat (m * 512) = length lg - 2 * nat (m * 512)" by simp
  show ?thesis
    using assms
    by (simp add: shorten_log_def Let_def a b py_slice_def slice_from_def c d z mult_2
          del: mult_minus_left)
qed

lemma emails_finish_discord: "emails (finish_discord cfg e b st) = emails st"
  by (simp add: finish_discord_def split_beta send_discord_notification_def Let_def
        split: option.splits post_result.splits)

lemma webhooks_finish_email: "webhooks (finish_email cfg e b st) = webhooks st"
  by (simp add: finish_email_def split_beta send_email_def Let_def split: option.splits)

lemma emails_finish: "emails (snd (finish cfg e b st)) = emails (finish_email cfg e b st)"
  by (simp add: finish_def Let_def emails_finish_discord)

lemma webhooks_finish:
  "webhooks (snd (finish cfg e b st)) = webhooks (finish_discord cfg e b (finish_email cfg e b st))"
  by (simp add: finish_def Let_def)

lemma emails_finish_email:
  "email_log st = Some lg \<Longrightarrow> contains (email_sendon cfg) (trigger b) \<Longrightarrow> smtp_host cfg \<noteq> [] \<Longrightarrow>
     emails (finish_email cfg e b st) = emails st @
       [\<lparr>subject = email_subject cfg @ (if b then '' SUCCESS'' else '' ERROR''),
         sender = email_from cfg, recipient = email_to cfg,
         body = (if b then ''SnapRAID job completed successfully:''
                 else ''Error during SnapRAID job:'') @ [newline, newline, newline]
                @ shorten_log (email_maxsize cfg) lg\<rparr>]"
  by (simp add: finish_email_def split_beta send_email_def Let_def split: option.splits)

lemma webhooks_finish_discord:
  "email_log st = Some lg \<Longrightarrow> discord_enabled cfg \<noteq> [] \<Longrightarrow>
     contains (discord_sendon cfg) (trigger b) \<Longrightarrow>
     webhooks (finish_discord cfg e b st) = webhooks st @
       [\<lparr>content = (if b then ''SnapRAID job completed successfully.''
                    else ''Error during SnapRAID job:''),
         title = ''Log'', description = lg, color = (if b then 65280 else 16711680)\<rparr>]"
  by (simp add: finish_discord_def split_beta send_discord_notification_def Let_def
        split: option.splits post_result.splits)

lemma setup_logger_buffer:
  "email_log (setup_logger cfg) = (if email_sendon cfg = [] then None else Some [])"
  by (simp add: setup_logger_def)

lemma buffer_kept:
  "grows st st' \<Longrightarrow> email_log st = Some lg \<Longrightarrow> \<exists>x. email_log st' = Some (lg @ x)"
  by (simp add: grows_def)

lemma trigger_not_empty: "trigger b \<noteq> []"
  by (simp add: trigger_def)

text \<open>
  C6, as the code has it. Let the log buffer exist when \<open>finish\<close> starts, and hold
  \<open>lg\<close>: \<open>setup_logger\<close> creates the buffer exactly when email sendon is not
  empty, and what is logged afterwards only extends it. Then:
  the email, when its trigger matches and an SMTP host is set, carries the success flag
  in its subject and first line, and the log shortened by \<open>shorten_log\<close>: unchanged
  when the budget is 0 or the log has at most \<open>maxsize * 1024\<close> characters; for a
  positive budget that the log exceeds, a note, the first half budget of characters, a
  marker with the number of newline characters left out, and the last half budget;
  the webhook, when enabled and its trigger matches, carries the success flag in its
  content and color, and the whole buffer as it is at that moment (\<open>lg\<close> and what
  the email step has logged), never shortened.
  Nothing is stated here about a run without a log buffer.
\<close>

theorem notifiers_receive_log:
  assumes "email_log st = Some lg"
  shows
    "(contains (email_sendon cfg) (trigger is_success) \<and> smtp_host cfg \<noteq> [] \<longrightarrow>
        emails (snd (finish cfg e is_success st)) = emails st @
          [\<lparr>subject = email_subject cfg @ (if is_success then '' SUCCESS'' else '' ERROR''),
            sender = email_from cfg, recipient = email_to cfg,
            body = (if is_success then ''SnapRAID job completed successfully:''
                    else ''Error during SnapRAID job:'') @ [newline, newline, newline]
                   @ shorten_log (email_maxsize cfg) lg\<rparr>])
     \<and> (discord_enabled cfg \<noteq> [] \<and> contains (discord_sendon cfg) (trigger is_success) \<longrightarrow>
        (\<exists>lg'. email_log (finish_email cfg e is_success st) = Some lg'
           \<and> take (length lg) lg' = lg
           \<and> webhooks (snd (finish cfg e is_success st)) = webhooks st @
                [\<lparr>content = (if is_success then ''SnapRAID job completed successfully.''
                             else ''Error during SnapRAID job:''),
                  title = ''Log'', description = lg',
                  color = (if is_success then 65280 else 16711680)\<rparr>]))
     \<and> (email_maxsize cfg = 0 \<or> int (length lg) \<le> email_maxsize cfg * 1024 \<longrightarrow>
        shorten_log (email_maxsize cfg) lg = lg)
     \<and> (0 < email_maxsize cfg \<and> email_maxsize cfg * 1024 < int (length lg) \<longrightarrow>
        shorten_log (email_maxsize cfg) lg =
          ''NOTE: Log was too big for email and was shortened'' @ [newline, newline]
            @ take (nat (email_maxsize cfg * 512)) lg
            @ ''[...]'' @ [newline, newline, newline]
            @ '' --- LOG WAS TOO BIG - ''
            @ str_nat (count_newlines
                (take (length lg - 2 * nat (email_maxsize cfg * 512))
                   (drop (nat (email_maxsize cfg * 512)) lg)))
            @ '' LINES REMOVED --'' @ [newline, newline, newline] @ ''[...]''
            @ drop (length lg - nat (email_maxsize cfg * 512)) lg)"
proof -
  obtain x where x: "email_log (finish_email cfg e is_success st) = Some (lg @ x)"
    using grows_finish_email [of st cfg e is_success] assms by (auto simp: grows_def)
  have "discord_enabled cfg \<noteq> [] \<and> contains (discord_sendon cfg) (trigger is_success) \<longrightarrow>
        (\<exists>lg'. email_log (finish_email cfg e is_success st) = Some lg'
           \<and> take (length lg) lg' = lg
           \<and> webhooks (snd (finish cfg e is_success st)) = webhooks st @
                [\<lparr>content = (if is_success then ''SnapRAID job completed successfully.''
                             else ''Error during SnapRAID job:''),
                  title = ''Log'', description = lg',
                  color = (if is_success then 65280 else 16711680)\<rparr>])"
    using webhooks_finish_discord [OF x, of cfg is_success e] x
    by (simp add: webhooks_finish webhooks_finish_email)
  then show ?thesis
    using emails_finish_email [OF assms, of cfg is_success e]
      shorten_log_small [of "email_maxsize cfg" lg] shorten_log_big [of "email_maxsize cfg" lg]
    by (simp only: emails_finish simp_thms) blast
qed

theorem notifiers_receive_log_witness:
  "emails (snd (finish example_config (example_env [] []) False long_log_state)) =
     [\<lparr>subject = ''[SnapRAID] ERROR'', sender = ''nas@example.org'',
       recipient = ''admin@example.org'',
       body = ''Error during SnapRAID job:'' @ [newline, newline, newline]
              @ shorten_log 1 long_log\<rparr>]
   \<and> shorten_log 1 long_log =
       ''NOTE: Log was too big for email and was shortened'' @ [newline, newline]
         @ take 512 long_log @ ''[...]'' @ [newline, newline, newline]
         @ '' --- LOG WAS TOO BIG - ''
         @ str_nat (count_newlines (take 1 (drop 512 long_log)))
         @ '' LINES REMOVED --'' @ [newline, newline, newline] @ ''[...]''
         @ drop 513 long_log
   \<and> shorten_log 1 ''short'' = ''short''"
  using notifiers_receive_log [of long_log_state long_log example_config False "example_env [] []"]
    notifiers_receive_log [of "(setup_logger example_config)\<lparr>email_log := Some ''short''\<rparr>"
      "''short''" example_config False "example_env [] []"]
  by (simp add: long_log_state_def setup_logger_def example_config_def trigger_def
        length_long_log)

text \<open>
  C6 as stated fails for the webhook: with a budget of 1024 characters and a log of
  1025, the description sent is the whole log and not the shortened one.
\<close>

theorem webhook_log_not_shortened_counterexample:
  "map description (webhooks (snd (finish example_config (example_env [] []) True long_log_state)))
     = [long_log]
   \<and> email_maxsize example_config * 1024 < int (length long_log)
   \<and> shorten_log (email_maxsize example_config) long_log \<noteq> long_log"
proof -
  have "hd (shorten_log 1 long_log) = CHR ''N''"
    by (simp add: shorten_log_def Let_def length_long_log)
  then have "shorten_log 1 long_log \<noteq> long_log"
    using hd_long_log by auto
  moreover have "map description
      (webhooks (snd (finish example_config (example_env [] []) True long_log_state))) = [long_log]"
    by (simp add: finish_def Let_def finish_email_def finish_discord_def
          send_discord_notification_def long_log_state_def setup_logger_def example_config_def
          example_env_def trigger_def)
  ultimately show ?thesis
    by (simp add: example_config_def length_long_log)
qed

text \<open>
  Without a log buffer (email sendon empty), the read of the buffer at line 172 raises
  before the payload is built: the exception is logged and no webhook is sent.
\<close>

lemma webhook_without_buffer:
  assumes "email_sendon cfg = []" and "email_log st = None"
    and "discord_enabled cfg \<noteq> []" and "contains (discord_sendon cfg) (trigger b)"
  shows "webhooks (snd (finish cfg e b st)) = webhooks st
     \<and> (ERROR, ''Failed to send Discord notification'' @ [newline] @ attribute_error)
          \<in> set (log (snd (finish cfg e b st)))"
proof -
  have e: "finish_email cfg e b st = st"
    using assms(1) by (simp add: finish_email_def trigger_not_empty)
  have d: "finish_discord cfg e b st =
      logging_exception cfg e ''Failed to send Discord notification'' attribute_error st"
    using assms by (simp add: finish_discord_def)
  show ?thesis
    using e d by (cases b) (simp_all add: finish_def Let_def)
qed

section \<open>Properties of the orchestrator\<close>

lemma grows_tee_log: "grows st (snd (tee_log cfg e ls (out, st)))"
proof (induction ls arbitrary: out st rule: stdout_lines.induct)
  case 1
  then show ?case by (simp add: grows_refl)
next
  case (2 l ls)
  show ?case using grows_trans [OF grows_logging_log 2] by simp
next
  case (3 l ls)
  show ?case using grows_trans [OF grows_logging_log 3] by simp
qed

lemma grows_sbc: "grows st (snd (snapraid_btrfs_command cfg e c sa ba al st))"
  using grows_trans [OF grows_fields(3) grows_tee_log]
  by (simp add: snapraid_btrfs_command_def Let_def split_beta)

lemma send_email_calls: "calls (snd (send_email cfg e b st)) = calls st"
  by (simp add: send_email_def Let_def split: option.splits)

lemma send_discord_calls: "calls (snd (send_discord_notification cfg e b lg st)) = calls st"
  by (simp add: send_discord_notification_def Let_def split: post_result.splits)

lemma finish_email_calls: "calls (finish_email cfg e b st) = calls st"
  by (simp add: finish_email_def split_beta send_email_calls split: option.splits)

lemma finish_discord_calls: "calls (finish_discord cfg e b st) = calls st"
  by (simp add: finish_discord_def split_beta send_discord_calls split: option.splits)

lemma finish_calls: "calls (snd (finish cfg e b st)) = calls st"
  by (simp add: finish_def Let_def finish_email_calls finish_discord_calls)

lemma fst_scrub_args:
  "fst (scrub_args cfg e st) =
     (if py_int (scrub_plan cfg) = None then [(''plan'', PyStr (scrub_plan cfg))]
      else [(''plan'', PyStr (scrub_plan cfg)), (''older-than'', PyInt (scrub_older_than cfg))])"
  by (simp add: scrub_args_def split: option.splits)

lemma calls_scrub_args: "calls (snd (scrub_args cfg e st)) = calls st"
  by (simp add: scrub_args_def split: option.splits)

lemma grows_scrub_args: "grows st (snd (scrub_args cfg e st))"
  by (simp add: scrub_args_def grows_refl grows_logging_log split: option.splits)

lemma run_scrub_calls:
  "calls (snd (run_scrub cfg e args st)) =
     calls st @ (if scrub_enabled cfg
                 then [(''scrub'', command_argv cfg ''scrub'' (fst (scrub_args cfg e st)) args)]
                 else [])"
  by (simp add: run_scrub_def split_beta sbc_fst sbc_calls finish_calls calls_scrub_args
        fst_scrub_args)

lemma run_scrub_fst:
  "fst (run_scrub cfg e args st) =
     (if scrub_enabled cfg \<and> \<not> exits_ok cfg e ''scrub'' (fst (scrub_args cfg e st)) args
      then 1 else 0)"
  by (simp add: run_scrub_def split_beta sbc_fst finish_fst exits_ok_def fst_scrub_args)

lemma run_cleanup_calls:
  "calls (snd (run_cleanup cfg e args st)) =
     calls st
     @ (if cleanup cfg then [(''cleanup'', command_argv cfg ''cleanup'' [] args)] else [])
     @ (if scrub_enabled cfg \<and> (cleanup cfg \<longrightarrow> exits_ok cfg e ''cleanup'' [] args)
        then [(''scrub'', command_argv cfg ''scrub'' (fst (scrub_args cfg e st)) args)]
        else [])"
  by (simp add: run_cleanup_def split_beta sbc_fst sbc_calls finish_calls run_scrub_calls
        exits_ok_def fst_scrub_args)

lemma run_cleanup_fst:
  "fst (run_cleanup cfg e args st) =
     (if (cleanup cfg \<and> \<not> exits_ok cfg e ''cleanup'' [] args)
         \<or> (scrub_enabled cfg \<and> \<not> exits_ok cfg e ''scrub'' (fst (scrub_args cfg e st)) args)
      then 1 else 0)"
  by (simp add: run_cleanup_def split_beta sbc_fst finish_fst run_scrub_fst exits_ok_def
        fst_scrub_args)

lemma run_pool_calls:
  "calls (snd (run_pool cfg e args st)) =
     calls st
     @ (if pool cfg then [(''pool'', command_argv cfg ''pool'' [] (pool_args cfg args))] else [])
     @ (if cleanup cfg \<and> (pool cfg \<longrightarrow> exits_ok cfg e ''pool'' [] (pool_args cfg args))
        then [(''cleanup'', command_argv cfg ''cleanup'' [] (pool_args cfg args))] else [])
     @ (if scrub_enabled cfg \<and> (pool cfg \<longrightarrow> exits_ok cfg e ''pool'' [] (pool_args cfg args))
           \<and> (cleanup cfg \<longrightarrow> exits_ok cfg e ''cleanup'' [] (pool_args cfg args))
        then [(''scrub'', command_argv cfg ''scrub'' (fst (scrub_args cfg e st)) (pool_args cfg args))]
        else [])"
  by (simp add: run_pool_def Let_def split_beta sbc_fst sbc_calls finish_calls run_cleanup_calls
        exits_ok_def fst_scrub_args pool_args_def)

lemma run_pool_fst:
  "fst (run_pool cfg e args st) =
     (if (pool cfg \<and> \<not> exits_ok cfg e ''pool'' [] (pool_args cfg args))
         \<or> (cleanup cfg \<and> \<not> exits_ok cfg e ''cleanup'' [] (pool_args cfg args))
         \<or> (scrub_enabled cfg
              \<and> \<not> exits_ok cfg e ''scrub'' (fst (scrub_args cfg e st)) (pool_args cfg args))
      then 1 else 0)"
  by (simp add: run_pool_def Let_def split_beta sbc_fst finish_fst run_cleanup_fst exits_ok_def
        fst_scrub_args pool_args_def)

lemma run_sync_zero:
  "diff_count dr ''remove'' + diff_count dr ''add'' + diff_count dr ''move''
     + diff_count dr ''update'' = 0 \<Longrightarrow>
   run_sync cfg e args dr st =
     run_pool cfg e args (logging_log cfg e INFO ''No changes detected, no sync required'' st)"
  by (simp add: run_sync_def)

lemma run_sync_nonzero_calls:
  "diff_count dr ''remove'' + diff_count dr ''add'' + diff_count dr ''move''
     + diff_count dr ''update'' \<noteq> 0 \<Longrightarrow>
   \<exists>ext. calls (snd (run_sync cfg e args dr st)) =
           calls st @ (''sync'', command_argv cfg ''sync'' [] args) # ext"
  by (simp add: run_sync_def split_beta sbc_fst sbc_calls finish_calls run_pool_calls)

lemma run_pool_quiet:
  "calls (snd (run_pool cfg e args st)) = calls st \<Longrightarrow> fst (run_pool cfg e args st) = 0"
  by (simp add: run_pool_calls run_pool_fst split: if_splits)

lemma run_sync_quiet:
  "calls (snd (run_sync cfg e args dr st)) = calls st \<Longrightarrow> fst (run_sync cfg e args dr st) = 0"
proof (cases "diff_count dr ''remove'' + diff_count dr ''add'' + diff_count dr ''move''
     + diff_count dr ''update'' = 0")
  case True
  assume "calls (snd (run_sync cfg e args dr st)) = calls st"
  then show ?thesis
    using run_pool_quiet [of cfg e args "logging_log cfg e INFO ''No changes detected, no sync required'' st"]
    by (simp add: run_sync_zero [OF True])
next
  case False
  assume "calls (snd (run_sync cfg e args dr st)) = calls st"
  then show ?thesis
    using run_sync_nonzero_calls [OF False, of cfg e args st] by auto
qed

text \<open>
  C2. After diff, from any state and with any diff output: the run ends with the failure
  status and without having spawned another command (before sync, that is) exactly
  when the delete threshold is not negative and the count of removed files is greater;
  the abort is logged with the threshold; with a negative threshold the run never ends
  this way.
\<close>

theorem threshold_guard:
  "((fst (run_threshold cfg e args diff_out st) = 1
      \<and> calls (snd (run_threshold cfg e args diff_out st)) = calls st)
     \<longleftrightarrow> (0 \<le> deletethreshold cfg
          \<and> deletethreshold cfg < int (diff_count (classify diff_out) ''remove'')))
   \<and> (0 \<le> deletethreshold cfg
        \<and> deletethreshold cfg < int (diff_count (classify diff_out) ''remove'') \<longrightarrow>
       (ERROR, ''Deleted files exceed delete threshold of '' @ str_int (deletethreshold cfg)
                 @ '', aborting'') \<in> set (log (snd (run_threshold cfg e args diff_out st))))
   \<and> (deletethreshold cfg < 0 \<longrightarrow>
       \<not> (fst (run_threshold cfg e args diff_out st) = 1
          \<and> calls (snd (run_threshold cfg e args diff_out st)) = calls st))"
proof (cases "0 \<le> deletethreshold cfg
          \<and> deletethreshold cfg < int (diff_count (classify diff_out) ''remove'')")
  case True
  then have r: "run_threshold cfg e args diff_out st =
      finish cfg e False
        (logging_log cfg e ERROR ''Run again with --ignore-deletethreshold to sync anyways''
           (logging_log cfg e ERROR
              (''Deleted files exceed delete threshold of '' @ str_int (deletethreshold cfg)
                 @ '', aborting'')
              (logging_log cfg e INFO
                 (''Diff results: '' @ str_nat (diff_count (classify diff_out) ''add'')
                    @ '' added,  '' @ str_nat (diff_count (classify diff_out) ''remove'')
                    @ '' removed,  '' @ str_nat (diff_count (classify diff_out) ''move'')
                    @ '' moved,  '' @ str_nat (diff_count (classify diff_out) ''update'')
                    @ '' modified'') st)))"
    by (simp add: run_threshold_def Let_def)
  have "(ERROR, ''Deleted files exceed delete threshold of '' @ str_int (deletethreshold cfg)
                 @ '', aborting'') \<in> set (log (snd (run_threshold cfg e args diff_out st)))"
    unfolding r by (rule grows_mem [OF grows_finish]) simp
  then show ?thesis using True by (simp add: r finish_fst finish_calls)
next
  case False
  then have r: "run_threshold cfg e args diff_out st =
      run_sync cfg e args (classify diff_out)
        (logging_log cfg e INFO
           (''Diff results: '' @ str_nat (diff_count (classify diff_out) ''add'')
              @ '' added,  '' @ str_nat (diff_count (classify diff_out) ''remove'')
              @ '' removed,  '' @ str_nat (diff_count (classify diff_out) ''move'')
              @ '' moved,  '' @ str_nat (diff_count (classify diff_out) ''update'')
              @ '' modified'') st)"
    by (auto simp: run_threshold_def Let_def)
  have "\<not> (fst (run_threshold cfg e args diff_out st) = 1
          \<and> calls (snd (run_threshold cfg e args diff_out st)) = calls st)"
    unfolding r
    using run_sync_quiet [of cfg e args "classify diff_out"
       "logging_log cfg e INFO
           (''Diff results: '' @ str_nat (diff_count (classify diff_out) ''add'')
              @ '' added,  '' @ str_nat (diff_count (classify diff_out) ''remove'')
              @ '' removed,  '' @ str_nat (diff_count (classify diff_out) ''move'')
              @ '' moved,  '' @ str_nat (diff_count (classify diff_out) ''update'')
              @ '' modified'') st"]
    by auto
  then show ?thesis using False by auto
qed

theorem threshold_guard_witness:
  "fst (run_threshold (example_config\<lparr>deletethreshold := 0\<rparr>) (example_env example_diff [])
          [] example_diff (setup_logger example_config)) = 1
   \<and> calls (snd (run_threshold (example_config\<lparr>deletethreshold := 0\<rparr>)
          (example_env example_diff []) [] example_diff (setup_logger example_config))) = []
   \<and> \<not> (fst (run_threshold example_config (example_env example_diff [])
          [] example_diff (setup_logger example_config)) = 1
        \<and> calls (snd (run_threshold example_config (example_env example_diff [])
          [] example_diff (setup_logger example_config))) = [])
   \<and> \<not> (fst (run_threshold (example_config\<lparr>deletethreshold := - 1\<rparr>)
          (example_env example_diff []) [] example_diff (setup_logger example_config)) = 1
        \<and> calls (snd (run_threshold (example_config\<lparr>deletethreshold := - 1\<rparr>)
          (example_env example_diff []) [] example_diff (setup_logger example_config))) = [])"
  using threshold_guard [of "example_config\<lparr>deletethreshold := 0\<rparr>" "example_env example_diff []"
          "[]" example_diff "setup_logger example_config"]
        threshold_guard [of example_config "example_env example_diff []"
          "[]" example_diff "setup_logger example_config"]
        threshold_guard [of "example_config\<lparr>deletethreshold := - 1\<rparr>" "example_env example_diff []"
          "[]" example_diff "setup_logger example_config"]
  by (simp add: example_config_def setup_logger_def diff_count_classify token_count_def
        example_diff_def split_first_def)

lemma grows_k:
  "grows s0 st \<Longrightarrow> grows s0 (logging_log cfg e lvl msg st)"
  "grows s0 st \<Longrightarrow> grows s0 (snd (finish cfg e b st))"
  "grows s0 st \<Longrightarrow> grows s0 (snd (snapraid_btrfs_command cfg e c sa ba al st))"
  "grows s0 st \<Longrightarrow> grows s0 (snd (scrub_args cfg e st))"
  by (erule grows_trans, rule grows_logging_log grows_finish grows_sbc grows_scrub_args)+

lemma grows_run_scrub: "grows s0 st \<Longrightarrow> grows s0 (snd (run_scrub cfg e args st))"
  by (auto simp: run_scrub_def split_beta split: sum.splits intro!: grows_k)

lemma grows_run_cleanup: "grows s0 st \<Longrightarrow> grows s0 (snd (run_cleanup cfg e args st))"
  by (auto simp: run_cleanup_def split_beta split: sum.splits intro!: grows_k grows_run_scrub)

lemma grows_run_pool: "grows s0 st \<Longrightarrow> grows s0 (snd (run_pool cfg e args st))"
  by (auto simp: run_pool_def Let_def split_beta split: sum.splits
        intro!: grows_k grows_run_cleanup)

lemma run_pool_commands:
  "calls st = calls s0 \<Longrightarrow>
   new_commands s0 (snd (run_pool cfg e args st)) =
     (if pool cfg then [''pool''] else [])
     @ (if cleanup cfg \<and> (pool cfg \<longrightarrow> exits_ok cfg e ''pool'' [] (pool_args cfg args))
        then [''cleanup''] else [])
     @ (if scrub_enabled cfg \<and> (pool cfg \<longrightarrow> exits_ok cfg e ''pool'' [] (pool_args cfg args))
           \<and> (cleanup cfg \<longrightarrow> exits_ok cfg e ''cleanup'' [] (pool_args cfg args))
        then [''scrub''] else [])"
  by (simp add: new_commands_def run_pool_calls)

lemma skip_sync_aux:
  assumes c: "calls s = calls st"
    and l: "(INFO, ''No changes detected, no sync required'') \<in> set (log s)"
  shows "''sync'' \<notin> set (new_commands st (snd (run_pool cfg e args s)))
    \<and> (INFO, ''No changes detected, no sync required'') \<in> set (log (snd (run_pool cfg e args s)))
    \<and> (pool cfg \<longrightarrow> ''pool'' \<in> set (new_commands st (snd (run_pool cfg e args s))))
    \<and> (cleanup cfg \<and> (pool cfg \<longrightarrow> exits_ok cfg e ''pool'' [] (pool_args cfg args)) \<longrightarrow>
         ''cleanup'' \<in> set (new_commands st (snd (run_pool cfg e args s))))
    \<and> (scrub_enabled cfg \<and> (pool cfg \<longrightarrow> exits_ok cfg e ''pool'' [] (pool_args cfg args))
          \<and> (cleanup cfg \<longrightarrow> exits_ok cfg e ''cleanup'' [] (pool_args cfg args)) \<longrightarrow>
         ''scrub'' \<in> set (new_commands st (snd (run_pool cfg e args s))))
    \<and> ((pool cfg \<longrightarrow> exits_ok cfg e ''pool'' [] (pool_args cfg args))
          \<and> (cleanup cfg \<longrightarrow> exits_ok cfg e ''cleanup'' [] (pool_args cfg args))
          \<and> (scrub_enabled cfg \<longrightarrow>
                exits_ok cfg e ''scrub'' (fst (scrub_args cfg e st)) (pool_args cfg args)) \<longrightarrow>
         fst (run_pool cfg e args s) = 0)"
proof -
  have sa: "fst (scrub_args cfg e s) = fst (scrub_args cfg e st)"
    by (simp add: fst_scrub_args)
  show ?thesis
    using grows_mem [OF grows_run_pool [OF grows_refl] l]
    by (simp add: run_pool_commands [OF c] run_pool_fst sa)
qed

text \<open>
  C4. When the four counts of the diff result are zero (the threshold check then passes,
  no count being above a threshold that is not negative): no sync is spawned and the
  skip is logged; pool is spawned when enabled; cleanup is spawned when enabled, unless
  pool failed; scrub is spawned when enabled, unless pool or cleanup failed; and when
  none of the enabled later commands fails the run ends with status 0.
\<close>

theorem no_changes_skip_sync:
  assumes "diff_count (classify diff_out) ''add'' = 0"
    and "diff_count (classify diff_out) ''remove'' = 0"
    and "diff_count (classify diff_out) ''move'' = 0"
    and "diff_count (classify diff_out) ''update'' = 0"
  shows "''sync'' \<notin> set (new_commands st (snd (run_threshold cfg e args diff_out st)))
    \<and> (INFO, ''No changes detected, no sync required'') \<in> set (log (snd (run_threshold cfg e args diff_out st)))
    \<and> (pool cfg \<longrightarrow> ''pool'' \<in> set (new_commands st (snd (run_threshold cfg e args diff_out st))))
    \<and> (cleanup cfg \<and> (pool cfg \<longrightarrow> exits_ok cfg e ''pool'' [] (pool_args cfg args)) \<longrightarrow>
         ''cleanup'' \<in> set (new_commands st (snd (run_threshold cfg e args diff_out st))))
    \<and> (scrub_enabled cfg \<and> (pool cfg \<longrightarrow> exits_ok cfg e ''pool'' [] (pool_args cfg args))
          \<and> (cleanup cfg \<longrightarrow> exits_ok cfg e ''cleanup'' [] (pool_args cfg args)) \<longrightarrow>
         ''scrub'' \<in> set (new_commands st (snd (run_threshold cfg e args diff_out st))))
    \<and> ((pool cfg \<longrightarrow> exits_ok cfg e ''pool'' [] (pool_args cfg args))
          \<and> (cleanup cfg \<longrightarrow> exits_ok cfg e ''cleanup'' [] (pool_args cfg args))
          \<and> (scrub_enabled cfg \<longrightarrow>
                exits_ok cfg e ''scrub'' (fst (scrub_args cfg e st)) (pool_args cfg args)) \<longrightarrow>
         fst (run_threshold cfg e args diff_out st) = 0)"
proof -
  let ?st1 = "logging_log cfg e INFO
      (''Diff results: '' @ str_nat (diff_count (classify diff_out) ''add'')
         @ '' added,  '' @ str_nat (diff_count (classify diff_out) ''remove'')
         @ '' removed,  '' @ str_nat (diff_count (classify diff_out) ''move'')
         @ '' moved,  '' @ str_nat (diff_count (classify diff_out) ''update'')
         @ '' modified'') st"
  let ?st2 = "logging_log cfg e INFO ''No changes detected, no sync required'' ?st1"
  have r: "run_threshold cfg e args diff_out st = run_pool cfg e args ?st2"
    using assms by (auto simp: run_threshold_def Let_def run_sync_def)
  show ?thesis
    unfolding r by (rule skip_sync_aux) simp_all
qed

theorem no_changes_skip_sync_witness:
  "''sync'' \<notin> set (new_commands (setup_logger example_config)
       (snd (run_threshold example_config (example_env unchanged_diff []) [] unchanged_diff
               (setup_logger example_config))))
   \<and> ''pool'' \<in> set (new_commands (setup_logger example_config)
       (snd (run_threshold example_config (example_env unchanged_diff []) [] unchanged_diff
               (setup_logger example_config))))
   \<and> ''cleanup'' \<in> set (new_commands (setup_logger example_config)
       (snd (run_threshold example_config (example_env unchanged_diff []) [] unchanged_diff
               (setup_logger example_config))))
   \<and> ''scrub'' \<in> set (new_commands (setup_logger example_config)
       (snd (run_threshold example_config (example_env unchanged_diff []) [] unchanged_diff
               (setup_logger example_config))))
   \<and> fst (run_threshold example_config (example_env unchanged_diff []) [] unchanged_diff
               (setup_logger example_config)) = 0"
proof -
  have z: "diff_count (classify unchanged_diff) ''add'' = 0"
    "diff_count (classify unchanged_diff) ''remove'' = 0"
    "diff_count (classify unchanged_diff) ''move'' = 0"
    "diff_count (classify unchanged_diff) ''update'' = 0"
    by (simp_all add: diff_count_classify token_count_def unchanged_diff_def split_first_def)
  have p: "py_int ''80'' = Some 80"
    by (simp add: py_int_def int_strip_def int_isspace_def is_digit_def digit_val_def)
  have ok: "exits_ok example_config (example_env unchanged_diff []) ''pool'' []
              (pool_args example_config [])"
    "exits_ok example_config (example_env unchanged_diff []) ''cleanup'' []
              (pool_args example_config [])"
    "exits_ok example_config (example_env unchanged_diff []) ''scrub''
              (fst (scrub_args example_config (example_env unchanged_diff [])
                      (setup_logger example_config)))
              (pool_args example_config [])"
    using p
    by (simp_all add: exits_ok_def example_env_def command_argv_layout flags_def pool_args_def
          fst_scrub_args example_config_def str_int_def str_nat.simps digit_char_def)
  show ?thesis
    using no_changes_skip_sync [OF z, of "setup_logger example_config" example_config
            "example_env unchanged_diff []" "[]"] ok
    by (simp add: example_config_def)
qed


lemma grows_after_scrub_args:
  "scrub_enabled cfg \<Longrightarrow>
   grows (snd (scrub_args cfg e (logging_log cfg e INFO ''Running scrub...'' st)))
     (snd (run_scrub cfg e args st))"
  by (auto simp: run_scrub_def split_beta split: sum.splits intro!: grows_k grows_refl)

lemma scrub_warning:
  "py_int (scrub_plan cfg) = None \<Longrightarrow> 0 < scrub_older_than cfg \<Longrightarrow>
   (WARNING, ''Ignoring '' @ [CHR 0x27] @ ''older-than'' @ [CHR 0x27]
               @ '' config item with scrub plan '' @ [CHR 0x27] @ scrub_plan cfg @ [CHR 0x27])
     \<in> set (log (snd (scrub_args cfg e st)))"
  by (simp add: scrub_args_def)

text \<open>
  C5. With scrub enabled, the scrub step spawns one command. When the plan parses as an
  integer, the command gets \<open>--plan\<close> with the plan and \<open>--older-than\<close> with
  the configured age. When it does not, the command gets \<open>--plan\<close> only, and the
  warning that older-than is ignored is logged whenever older-than is above 0.
\<close>

theorem scrub_plan_and_older_than:
  assumes "scrub_enabled cfg"
  shows "(py_int (scrub_plan cfg) \<noteq> None \<longrightarrow>
            calls (snd (run_scrub cfg e args st)) = calls st @
              [(''scrub'',
                [snapraid_btrfs_executable cfg, ''--quiet'', ''--conf'', snapraid_config cfg,
                 ''--snapper-path'', snapper_executable cfg,
                 ''--snapraid-path'', snapraid_executable cfg]
                @ flags args
                @ [''scrub'', ''--quiet'', ''--plan'', scrub_plan cfg,
                   ''--older-than'', str_int (scrub_older_than cfg)])])
     \<and> (py_int (scrub_plan cfg) = None \<longrightarrow>
            calls (snd (run_scrub cfg e args st)) = calls st @
              [(''scrub'',
                [snapraid_btrfs_executable cfg, ''--quiet'', ''--conf'', snapraid_config cfg,
                 ''--snapper-path'', snapper_executable cfg,
                 ''--snapraid-path'', snapraid_executable cfg]
                @ flags args
                @ [''scrub'', ''--quiet'', ''--plan'', scrub_plan cfg])]
          \<and> (0 < scrub_older_than cfg \<longrightarrow>
               (WARNING, ''Ignoring '' @ [CHR 0x27] @ ''older-than'' @ [CHR 0x27]
                  @ '' config item with scrub plan '' @ [CHR 0x27] @ scrub_plan cfg @ [CHR 0x27])
                 \<in> set (log (snd (run_scrub cfg e args st)))))"
proof -
  have w: "py_int (scrub_plan cfg) = None \<Longrightarrow> 0 < scrub_older_than cfg \<Longrightarrow>
      (WARNING, ''Ignoring '' @ [CHR 0x27] @ ''older-than'' @ [CHR 0x27]
                  @ '' config item with scrub plan '' @ [CHR 0x27] @ scrub_plan cfg @ [CHR 0x27])
        \<in> set (log (snd (run_scrub cfg e args st)))"
    by (rule grows_mem [OF grows_after_scrub_args [OF assms] scrub_warning])
  have c: "calls (snd (run_scrub cfg e args st)) = calls st @
       [(''scrub'', command_argv cfg ''scrub'' (fst (scrub_args cfg e st)) args)]"
    using assms by (simp add: run_scrub_calls)
  show ?thesis
    using w unfolding c
    by (simp add: command_argv_layout fst_scrub_args flags_def)
qed

theorem scrub_plan_and_older_than_witness:
  "calls (snd (run_scrub example_config (example_env [] []) [] (setup_logger example_config))) =
     [(''scrub'', [''snapraid-btrfs'', ''--quiet'', ''--conf'', ''/etc/snapraid.conf'',
                   ''--snapper-path'', ''snapper'', ''--snapraid-path'', ''snapraid'',
                   ''scrub'', ''--quiet'', ''--plan'', ''80'', ''--older-than'', ''30''])]
   \<and> calls (snd (run_scrub (example_config\<lparr>scrub_plan := ''full''\<rparr>) (example_env [] []) []
                      (setup_logger example_config))) =
     [(''scrub'', [''snapraid-btrfs'', ''--quiet'', ''--conf'', ''/etc/snapraid.conf'',
                   ''--snapper-path'', ''snapper'', ''--snapraid-path'', ''snapraid'',
                   ''scrub'', ''--quiet'', ''--plan'', ''full''])]
   \<and> (WARNING, ''Ignoring '' @ [CHR 0x27] @ ''older-than'' @ [CHR 0x27]
         @ '' config item with scrub plan '' @ [CHR 0x27] @ ''full'' @ [CHR 0x27])
       \<in> set (log (snd (run_scrub (example_config\<lparr>scrub_plan := ''full''\<rparr>) (example_env [] []) []
                      (setup_logger example_config))))"
proof -
  have p: "py_int ''80'' = Some 80" "py_int ''full'' = None"
    by (simp_all add: py_int_def int_strip_def int_isspace_def is_digit_def digit_val_def)
  show ?thesis
    using scrub_plan_and_older_than [of example_config "example_env [] []" "[]"
            "setup_logger example_config"]
          scrub_plan_and_older_than [of "example_config\<lparr>scrub_plan := ''full''\<rparr>"
            "example_env [] []" "[]" "setup_logger example_config"] p
    by (simp add: example_config_def setup_logger_def flags_def str_int_def str_nat.simps
          digit_char_def)
qed

lemma flags_dict_set:
  "\<exists>pre post. flags (dict_set d k v) = pre @ [''--'' @ k, str_py v] @ post"
proof (induction d)
  case Nil
  have "flags (dict_set [] k v) = [] @ [''--'' @ k, str_py v] @ []"
    by (simp add: flags_def)
  then show ?case by blast
next
  case (Cons a d)
  obtain k' v' where a: "a = (k', v')" by (cases a)
  show ?case
  proof (cases "k' = k")
    case True
    have "flags (dict_set (a # d) k v) = [] @ [''--'' @ k, str_py v] @ flags d"
      using True a by (simp add: flags_def)
    then show ?thesis by blast
  next
    case False
    from Cons obtain pre post where
      "flags (dict_set d k v) = pre @ [''--'' @ k, str_py v] @ post" by blast
    then have "flags (dict_set (a # d) k v) =
        ([''--'' @ k', str_py v'] @ pre) @ [''--'' @ k, str_py v] @ post"
      using False a by (simp add: flags_def)
    then show ?thesis by blast
  qed
qed


text \<open>
  C10. When pool is enabled and a pool-dir is configured, every command spawned from the
  pool step on (pool, then cleanup and scrub when they run) has the pool-dir flag and
  its value among the flags before the command name: the shared dict keeps the key.
\<close>

theorem pool_dir_persists:
  assumes "pool cfg" and "pool_dir cfg \<noteq> []"
  shows "(\<forall>(c, argv) \<in> set (drop (length (calls st)) (calls (snd (run_pool cfg e args st)))).
            \<exists>pre post rest. argv =
              [snapraid_btrfs_executable cfg, ''--quiet'', ''--conf'', snapraid_config cfg,
               ''--snapper-path'', snapper_executable cfg,
               ''--snapraid-path'', snapraid_executable cfg]
              @ pre @ [''--pool-dir'', pool_dir cfg] @ post @ [c] @ rest)
     \<and> (cleanup cfg \<and> exits_ok cfg e ''pool'' [] (pool_args cfg args) \<longrightarrow>
          ''cleanup'' \<in> fst ` set (drop (length (calls st)) (calls (snd (run_pool cfg e args st)))))
     \<and> (scrub_enabled cfg \<and> exits_ok cfg e ''pool'' [] (pool_args cfg args)
           \<and> (cleanup cfg \<longrightarrow> exits_ok cfg e ''cleanup'' [] (pool_args cfg args)) \<longrightarrow>
          ''scrub'' \<in> fst ` set (drop (length (calls st)) (calls (snd (run_pool cfg e args st)))))"
proof -
  have pa: "pool_args cfg args = dict_set args ''pool-dir'' (PyStr (pool_dir cfg))"
    using assms by (simp add: pool_args_def)
  obtain pre post where f: "flags (pool_args cfg args) = pre @ [''--pool-dir'', pool_dir cfg] @ post"
    using flags_dict_set [of args "''pool-dir''" "PyStr (pool_dir cfg)"] pa by auto
  have argv: "\<exists>pre post rest. command_argv cfg c sargs (pool_args cfg args) =
              [snapraid_btrfs_executable cfg, ''--quiet'', ''--conf'', snapraid_config cfg,
               ''--snapper-path'', snapper_executable cfg,
               ''--snapraid-path'', snapraid_executable cfg]
              @ pre @ [''--pool-dir'', pool_dir cfg] @ post @ [c] @ rest" for c sargs
    unfolding command_argv_layout f by auto
  show ?thesis
    using assms argv by (auto simp: run_pool_calls split: if_splits)
qed


theorem pool_dir_persists_witness:
  "calls (snd (run_pool example_config (example_env [] []) [] (setup_logger example_config))) =
     [(''pool'', [''snapraid-btrfs'', ''--quiet'', ''--conf'', ''/etc/snapraid.conf'',
                  ''--snapper-path'', ''snapper'', ''--snapraid-path'', ''snapraid'',
                  ''--pool-dir'', ''/mnt/pool'', ''pool'', ''--quiet'']),
      (''cleanup'', [''snapraid-btrfs'', ''--quiet'', ''--conf'', ''/etc/snapraid.conf'',
                     ''--snapper-path'', ''snapper'', ''--snapraid-path'', ''snapraid'',
                     ''--pool-dir'', ''/mnt/pool'', ''cleanup'']),
      (''scrub'', [''snapraid-btrfs'', ''--quiet'', ''--conf'', ''/etc/snapraid.conf'',
                   ''--snapper-path'', ''snapper'', ''--snapraid-path'', ''snapraid'',
                   ''--pool-dir'', ''/mnt/pool'', ''scrub'', ''--quiet'', ''--plan'', ''80'',
                   ''--older-than'', ''30''])]
   \<and> ''cleanup'' \<in> fst ` set (drop (length (calls (setup_logger example_config)))
        (calls (snd (run_pool example_config (example_env [] []) []
                       (setup_logger example_config)))))
   \<and> ''scrub'' \<in> fst ` set (drop (length (calls (setup_logger example_config)))
        (calls (snd (run_pool example_config (example_env [] []) []
                       (setup_logger example_config)))))"
proof -
  have h: "pool example_config" "pool_dir example_config \<noteq> []"
    "cleanup example_config" "scrub_enabled example_config"
    by (simp_all add: example_config_def)
  have p: "py_int ''80'' = Some 80"
    by (simp add: py_int_def int_strip_def int_isspace_def is_digit_def digit_val_def)
  have ok: "exits_ok example_config (example_env [] []) ''pool'' [] (pool_args example_config [])"
    "exits_ok example_config (example_env [] []) ''cleanup'' [] (pool_args example_config [])"
    by (simp_all add: exits_ok_def example_env_def command_argv_layout flags_def pool_args_def
          example_config_def)
  have c: "calls (snd (run_pool example_config (example_env [] []) []
                         (setup_logger example_config))) =
     [(''pool'', [''snapraid-btrfs'', ''--quiet'', ''--conf'', ''/etc/snapraid.conf'',
                  ''--snapper-path'', ''snapper'', ''--snapraid-path'', ''snapraid'',
                  ''--pool-dir'', ''/mnt/pool'', ''pool'', ''--quiet'']),
      (''cleanup'', [''snapraid-btrfs'', ''--quiet'', ''--conf'', ''/etc/snapraid.conf'',
                     ''--snapper-path'', ''snapper'', ''--snapraid-path'', ''snapraid'',
                     ''--pool-dir'', ''/mnt/pool'', ''cleanup'']),
      (''scrub'', [''snapraid-btrfs'', ''--quiet'', ''--conf'', ''/etc/snapraid.conf'',
                   ''--snapper-path'', ''snapper'', ''--snapraid-path'', ''snapraid'',
                   ''--pool-dir'', ''/mnt/pool'', ''scrub'', ''--quiet'', ''--plan'', ''80'',
                   ''--older-than'', ''30''])]"
    using ok h p
    by (simp add: run_pool_calls fst_scrub_args)
       (simp add: command_argv_layout flags_def pool_args_def example_config_def setup_logger_def
          str_int_def str_nat.simps digit_char_def)
  show ?thesis
    using pool_dir_persists [OF h(1,2), of "setup_logger example_config" "example_env [] []" "[]"]
      h(3,4) ok
    unfolding c by simp
qed

section \<open>The run as a whole\<close>

text \<open>
  How \<open>run\<close> gets to the threshold check: with the four paths in place and touch
  disabled it goes to diff without spawning anything, and diff, when its exit code is 0
  or 2, hands its stdout lines to the threshold check.
\<close>

lemma run_diff_reaches_threshold:
  assumes "returncode (popen e (command_argv cfg ''diff'' [] args)) \<in> {0, 2}"
  shows "\<exists>st'. calls st' = calls st @ [(''diff'', command_argv cfg ''diff'' [] args)]
            \<and> run_diff cfg e args st =
                exited (run_threshold cfg e args
                          (stdout_lines (events (popen e (command_argv cfg ''diff'' [] args)))) st')"
proof -
  let ?r = "snapraid_btrfs_command cfg e ''diff'' [] args [2]
              (logging_log cfg e INFO ''Running diff...'' st)"
  have f: "fst ?r = Inr (stdout_lines (events (popen e (command_argv cfg ''diff'' [] args))))"
    using assms by (auto simp: sbc_fst)
  have c: "calls (logging_log cfg e INFO stars (snd ?r)) =
             calls st @ [(''diff'', command_argv cfg ''diff'' [] args)]"
    by (simp add: sbc_calls)
  have "run_diff cfg e args st =
          exited (run_threshold cfg e args
                    (stdout_lines (events (popen e (command_argv cfg ''diff'' [] args))))
                    (logging_log cfg e INFO stars (snd ?r)))"
    using f by (simp add: run_diff_def split_beta exited_def)
  then show ?thesis using c by blast
qed

lemma run_reaches_diff:
  assumes "which e (snapraid_executable cfg)" "isfile e (snapraid_config cfg)"
    "which e (snapraid_btrfs_executable cfg)" "which e (snapper_executable cfg)"
    "\<not> snapraid_touch cfg"
  shows "\<exists>st'. calls st' = calls st \<and> run cfg e st = run_diff cfg e (initial_args cfg) st'"
proof -
  let ?st = "logging_log cfg e INFO (replicate 60 CHR ''='')
                 (logging_log cfg e INFO ''Run started''
                    (logging_log cfg e INFO (replicate 60 CHR ''='') st))"
  have "run cfg e st = run_diff cfg e (initial_args cfg) ?st"
    using assms by (simp add: run_def run_touch_def Let_def)
  moreover have "calls ?st = calls st" by simp
  ultimately show ?thesis by blast
qed


text \<open>
  Two whole runs in the example environment, from \<open>main\<close>: with the diff output of
  two additions and one removal and a threshold of 5 every step runs and the exit
  status is 0; with a threshold of 0 the run stops after diff with status 1.
\<close>

lemma example_paths:
  "which (example_env d f) x" "isfile (example_env d f) x"
  by (simp_all add: example_env_def)

lemma example_diff_proc:
  "popen (example_env d f) (command_argv cfg ''diff'' sargs bargs) =
     \<lparr>events = map Out d, returncode = 2\<rparr>"
  by (simp add: example_env_def command_argv_layout)

lemma stdout_lines_map_Out: "stdout_lines (map Out d) = d"
  by (induction d) auto

lemma example_exits_ok:
  "exits_ok example_config (example_env d []) ''sync'' [] []"
  "exits_ok example_config (example_env d []) ''pool'' [] (pool_args example_config [])"
  "exits_ok example_config (example_env d []) ''cleanup'' [] (pool_args example_config [])"
  "exits_ok example_config (example_env d []) ''scrub''
     [(''plan'', PyStr ''80''), (''older-than'', PyInt 30)] (pool_args example_config [])"
  by (simp_all add: exits_ok_def example_env_def command_argv_layout flags_def pool_args_def
        example_config_def str_int_def str_nat.simps digit_char_def)

lemma example_counts:
  "diff_count (classify example_diff) ''add'' = 2"
  "diff_count (classify example_diff) ''remove'' = 1"
  "diff_count (classify example_diff) ''move'' = 0"
  "diff_count (classify example_diff) ''update'' = 0"
  by (simp_all add: diff_count_classify token_count_def example_diff_def split_first_def)

lemma scenario_B:
  "fst (main (example_config\<lparr>deletethreshold := 0\<rparr>) (example_env example_diff [])) = 1
   \<and> map fst (calls (snd (main (example_config\<lparr>deletethreshold := 0\<rparr>)
                              (example_env example_diff [])))) = [''diff'']"
proof -
  let ?cfg = "example_config\<lparr>deletethreshold := 0\<rparr>"
  have t: "\<not> snapraid_touch ?cfg" "deletethreshold ?cfg = 0" "initial_args ?cfg = []"
    by (simp_all add: example_config_def initial_args_def)
  show ?thesis
    by (simp add: main_def run_def run_touch_def run_diff_def run_threshold_def Let_def
          split_beta example_paths t sbc_fst sbc_calls example_diff_proc stdout_lines_map_Out
          example_counts finish_fst finish_calls setup_logger_def)
qed

lemma scenario_A:
  "fst (main example_config (example_env example_diff [])) = 0
   \<and> map fst (calls (snd (main example_config (example_env example_diff [])))) =
       [''diff'', ''sync'', ''pool'', ''cleanup'', ''scrub'']"
proof -
  have t: "\<not> snapraid_touch example_config" "deletethreshold example_config = 5"
    "initial_args example_config = []" "pool example_config" "cleanup example_config"
    "scrub_enabled example_config" "scrub_plan example_config = ''80''"
    "scrub_older_than example_config = 30"
    by (simp_all add: example_config_def initial_args_def)
  have p: "py_int ''80'' = Some 80"
    by (simp add: py_int_def int_strip_def int_isspace_def is_digit_def digit_val_def)
  have s: "returncode (popen (example_env example_diff [])
             (command_argv example_config ''sync'' [] [])) = 0"
    using example_exits_ok(1) [of example_diff] by (simp add: exits_ok_def)
  show ?thesis
    using example_exits_ok [of example_diff]
    by (simp add: main_def run_def run_touch_def run_diff_def run_threshold_def run_sync_def
          Let_def split_beta example_paths t sbc_fst sbc_calls example_diff_proc
          stdout_lines_map_Out example_counts finish_fst finish_calls setup_logger_def
          run_pool_calls run_pool_fst fst_scrub_args p s)
qed


end
